theory Spec2Isabelle
  imports Main
begin

section \<open>JavaScript values\<close>

text \<open>
  The values the dispatcher and the session manager inspect: they test truthiness
  (\<open>a || b\<close>, \<open>if (a)\<close>), ask \<open>typeof\<close>, and read the properties \<open>type\<close>,
  \<open>message\<close> of plain objects. Numbers are integers (HTTP status codes); an object is its
  property list in insertion order. Arrays and functions are not values of this type: where
  the source holds one (the \<open>messages\<close> array, \<open>session.save\<close>, the callback) the
  model has a field of its own.
\<close>

datatype jsval =
    JUndefined
  | JNull
  | JBool bool
  | JNum int
  | JStr string
  | JObj "(string \<times> jsval) list"

fun truthy :: "jsval \<Rightarrow> bool" where
  "truthy JUndefined = False"
| "truthy JNull = False"
| "truthy (JBool b) = b"
| "truthy (JNum n) = (n \<noteq> 0)"
| "truthy (JStr s) = (s \<noteq> [])"
| "truthy (JObj ps) = True"

text \<open>\<open>a || b\<close>\<close>

definition js_or :: "jsval \<Rightarrow> jsval \<Rightarrow> jsval" where
  "js_or a b = (if truthy a then a else b)"

text \<open>\<open>typeof v === 'string'\<close>, \<open>'number'\<close>, \<open>'boolean'\<close>\<close>

fun is_string :: "jsval \<Rightarrow> bool" where
  "is_string (JStr s) = True"
| "is_string _ = False"

fun is_number :: "jsval \<Rightarrow> bool" where
  "is_number (JNum n) = True"
| "is_number _ = False"

fun is_boolean :: "jsval \<Rightarrow> bool" where
  "is_boolean (JBool b) = True"
| "is_boolean _ = False"

text \<open>Property lists: \<open>o[k] = v\<close> keeps the position of an existing key and appends a new
  one; \<open>delete o[k]\<close> removes the key.\<close>

fun put_prop :: "string \<Rightarrow> 'v \<Rightarrow> (string \<times> 'v) list \<Rightarrow> (string \<times> 'v) list" where
  "put_prop k v [] = [(k, v)]"
| "put_prop k v (p # ps) = (if fst p = k then (k, v) # ps else p # put_prop k v ps)"

definition delete_prop :: "string \<Rightarrow> (string \<times> 'v) list \<Rightarrow> (string \<times> 'v) list" where
  "delete_prop k ps = filter (\<lambda>p. fst p \<noteq> k) ps"

text \<open>\<open>v.k\<close> for a value \<open>v\<close> that is neither undefined nor null: a missing property, and any
  property of a primitive that the source asks for, reads as undefined.\<close>

fun get_prop :: "jsval \<Rightarrow> string \<Rightarrow> jsval" where
  "get_prop (JObj ps) k = (case map_of ps k of Some x \<Rightarrow> x | None \<Rightarrow> JUndefined)"
| "get_prop _ k = JUndefined"

datatype exn = TypeError


section \<open>Session manager (sessionmanager.js)\<close>

text \<open>
  \<open>logIn\<close> stores one object under two paths, \<open>req._passport.session\<close> and
  \<open>req.session[key]\<close>, and \<open>logOut\<close> deletes through the first path only, so the
  objects live in a store: a list of property lists, an address being an index. A property
  holds a primitive value or a reference.
\<close>

datatype slot = Val jsval | Ref nat

type_synonym sobject = "(string \<times> slot) list"

record srequest =
  heap :: "sobject list"
  passport_slot :: slot
  session_slot :: slot

fun truthy_slot :: "slot \<Rightarrow> bool" where
  "truthy_slot (Ref a) = True"
| "truthy_slot (Val v) = truthy v"

definition deref :: "sobject list \<Rightarrow> nat \<Rightarrow> sobject" where
  "deref h a = (if a < length h then h ! a else [])"

text \<open>\<open>v.k\<close>, for \<open>v\<close> neither undefined nor null.\<close>

definition read_slot :: "sobject list \<Rightarrow> slot \<Rightarrow> string \<Rightarrow> slot" where
  "read_slot h v k =
     (case v of
        Ref a \<Rightarrow> (case map_of (deref h a) k of Some x \<Rightarrow> x | None \<Rightarrow> Val JUndefined)
      | Val u \<Rightarrow> Val JUndefined)"

text \<open>\<open>v.k = x\<close> and \<open>delete v.k\<close>. The file is not in strict mode: on a primitive both
  do nothing.\<close>

definition write_slot :: "sobject list \<Rightarrow> slot \<Rightarrow> string \<Rightarrow> slot \<Rightarrow> sobject list" where
  "write_slot h v k x =
     (case v of
        Ref a \<Rightarrow> (if a < length h then h[a := put_prop k x (h ! a)] else h)
      | Val u \<Rightarrow> h)"

definition delete_slot :: "sobject list \<Rightarrow> slot \<Rightarrow> string \<Rightarrow> sobject list" where
  "delete_slot h v k =
     (case v of
        Ref a \<Rightarrow> (if a < length h then h[a := delete_prop k (h ! a)] else h)
      | Val u \<Rightarrow> h)"

text \<open>How a call ended for its completion callback \<open>cb\<close>: invoked once with these
  arguments, never invoked because the call threw, or never invoked because none was given.\<close>

datatype completion = Completed "jsval list" | Raised exn | NotNotified

text \<open>The identity serializer is supplied from outside: given the identity and the request
  it completes with \<open>(err, obj)\<close>.\<close>

record manager =
  p_key :: string
  p_serializeUser :: "jsval \<Rightarrow> srequest \<Rightarrow> jsval \<times> jsval"

text \<open>\<open>options.key || 'passport'\<close>; \<open>None\<close> is a missing \<open>options\<close> or \<open>key\<close> (also
  the call with the serializer in the first position).\<close>

definition SessionManager ::
  "string option \<Rightarrow> (jsval \<Rightarrow> srequest \<Rightarrow> jsval \<times> jsval) \<Rightarrow> manager" where
  "SessionManager okey ser =
     \<lparr> p_key = (case okey of None \<Rightarrow> ''passport'' | Some k \<Rightarrow> if k = [] then ''passport'' else k),
       p_serializeUser = ser \<rparr>"

definition logIn :: "manager \<Rightarrow> srequest \<Rightarrow> jsval \<Rightarrow> completion \<times> srequest" where
  "logIn self req user =
     (case p_serializeUser self user req of
        (err, obj) \<Rightarrow>
          if truthy err then (Completed [err], req)
          else
            (case passport_slot req of
               Val u \<Rightarrow> (Raised TypeError, req)
             | Ref p \<Rightarrow>
                 let h1 = (if \<not> truthy_slot (read_slot (heap req) (Ref p) ''session'')
                           then write_slot (heap req @ [ [] ]) (Ref p) ''session'' (Ref (length (heap req)))
                           else heap req);
                     h2 = write_slot h1 (read_slot h1 (Ref p) ''session'') ''user'' (Val obj);
                     req3 = (if \<not> truthy_slot (session_slot req)
                             then req\<lparr>heap := h2 @ [ [] ], session_slot := Ref (length h2)\<rparr>
                             else req\<lparr>heap := h2\<rparr>);
                     h4 = write_slot (heap req3) (session_slot req3) (p_key self)
                            (read_slot (heap req3) (Ref p) ''session'')
                 in (Completed [], req3\<lparr>heap := h4\<rparr>)))"

definition logOut :: "srequest \<Rightarrow> bool \<Rightarrow> completion \<times> srequest" where
  "logOut req cb =
     (let req' =
        (if truthy_slot (passport_slot req)
            \<and> truthy_slot (read_slot (heap req) (passport_slot req) ''session'')
         then req\<lparr>heap := delete_slot (heap req)
                            (read_slot (heap req) (passport_slot req) ''session'') ''user''\<rparr>
         else req)
      in (if cb then Completed [] else NotNotified, req'))"

text \<open>Requests used as concrete inputs below. \<open>bare_request\<close>: a session holding
  \<open>passport = {user: 7}\<close> on a request that has no \<open>_passport\<close>. \<open>fresh_request\<close>: the
  request as the initialising middleware leaves it before the first login,
  \<open>_passport = {}\<close> and no session.\<close>

definition bare_request :: srequest where
  "bare_request =
     \<lparr> heap = [ [(''passport'', Ref 1)], [(''user'', Val (JNum 7)), (''extra'', Val (JStr ''kept''))] ],
       passport_slot = Val JUndefined,
       session_slot = Ref 0 \<rparr>"

definition fresh_request :: srequest where
  "fresh_request = \<lparr> heap = [ [] ], passport_slot = Ref 0, session_slot = Val JUndefined \<rparr>"

definition id_manager :: manager where
  "id_manager = SessionManager None (\<lambda>user req. (JUndefined, user))"

definition failing_manager :: manager where
  "failing_manager = SessionManager None (\<lambda>user req. (JStr ''serialize failed'', JUndefined))"


definition logged_in_request :: srequest where
  "logged_in_request = snd (logIn id_manager fresh_request (JNum 42))"


section \<open>Authentication dispatcher (the authenticate middleware in index.js)\<close>

subsection \<open>State\<close>

text \<open>The options object; a missing option is undefined. \<open>session_option\<close> is the
  \<open>session\<close> option, which only \<open>req.logIn\<close> reads.\<close>

record options =
  session_option :: jsval
  successRedirect :: jsval
  successReturnToOrRedirect :: jsval
  successMessage :: jsval
  successFlash :: jsval
  failureRedirect :: jsval
  failureMessage :: jsval
  failureFlash :: jsval
  failWithError :: jsval
  assignProperty :: jsval
  authInfo :: jsval

definition no_options :: options where
  "no_options =
     \<lparr> session_option = JUndefined, successRedirect = JUndefined,
       successReturnToOrRedirect = JUndefined, successMessage = JUndefined,
       successFlash = JUndefined, failureRedirect = JUndefined, failureMessage = JUndefined,
       failureFlash = JUndefined, failWithError = JUndefined, assignProperty = JUndefined,
       authInfo = JUndefined \<rparr>"

text \<open>\<open>req.session\<close> as the dispatcher sees it: whether \<open>save\<close> is a function, the
  \<open>returnTo\<close> property (\<open>None\<close> when the session has none) and the \<open>messages\<close>
  array (\<open>None\<close> when missing).\<close>

record session =
  save_fn :: bool
  returnTo :: "jsval option"
  messages :: "jsval list option"

text \<open>The request: \<open>req.session\<close> (\<open>None\<close> when there is none), whether
  \<open>req.flash\<close> is a function, \<open>req.authInfo\<close>, and \<open>assigned\<close>: the writes
  \<open>req[k] = v\<close> to every other property, in order, \<open>k\<close> as it was given.\<close>

record request =
  req_session :: "session option"
  flash_fn :: bool
  assigned :: "(jsval \<times> jsval) list"
  req_authInfo :: jsval

record response =
  statusCode :: jsval

text \<open>\<open>http.STATUS_CODES[code]\<close> is a table of the host: the text is kept symbolic.\<close>

datatype body = NoBody | StatusText jsval

datatype header_value = HValue jsval | HList "jsval list"

text \<open>The argument of \<open>next\<close>: none, an error value handed over by a collaborator or a
  strategy, \<open>new Error('Unknown authentication strategy "name"')\<close>, or
  \<open>new AuthenticationError(text, rstatus)\<close>.\<close>

datatype next_arg =
    NoError
  | Err jsval
  | UnknownStrategy string
  | AuthenticationError body jsval

text \<open>The arguments of the application's callback: \<open>(err)\<close>, \<open>(null, user, info)\<close>,
  \<open>(null, false, challenge, status)\<close> and \<open>(null, false, challenges, statuses)\<close>.\<close>

datatype callback_args =
    CbError jsval
  | CbSuccess jsval jsval
  | CbFailure jsval jsval
  | CbFailures "jsval list" "jsval list"

text \<open>Calls into the host, in the order they are made.\<close>

datatype event =
    Flash jsval jsval
  | SessionSave
  | ResRedirect jsval
  | SetHeader string header_value
  | ResEnd body
  | Next next_arg
  | Callback callback_args

record world =
  req :: request
  res :: response
  opts :: options
  trace :: "event list"

text \<open>A dispatch returns normally or throws; either way the world is what it left behind.\<close>

datatype outcome = Done world | Threw exn world

fun world_of :: "outcome \<Rightarrow> world" where
  "world_of (Done w) = w"
| "world_of (Threw x w) = w"

fun bind :: "outcome \<Rightarrow> (world \<Rightarrow> outcome) \<Rightarrow> outcome" where
  "bind (Done w) f = f w"
| "bind (Threw x w) f = Threw x w"

definition emit :: "event \<Rightarrow> world \<Rightarrow> world" where
  "emit ev w = w\<lparr>trace := trace w @ [ev]\<rparr>"

subsection \<open>Strategies and collaborators\<close>

text \<open>A strategy is given the request and the options and invokes one action. Strategies
  are external: one is modelled by the action it invokes.\<close>

datatype action =
    CallSuccess jsval jsval
  | CallFail jsval jsval
  | CallRedirect jsval jsval
  | CallPass
  | CallError jsval

type_synonym strategy = "request \<Rightarrow> options \<Rightarrow> action"

text \<open>An entry of \<open>name\<close>: an object with an \<open>authenticate\<close> function, or a string.\<close>

datatype layer = Instance strategy | Name string

record failure =
  challenge :: jsval
  status :: jsval

text \<open>
  The closure of one handler. \<open>p_strategy\<close> is \<open>passport._strategy\<close>,
  \<open>p_transformAuthInfo\<close> completes with \<open>(err, tinfo)\<close>, \<open>req_logIn\<close> is
  \<open>req.logIn(user, options, cb)\<close>, completing with \<open>err\<close> and leaving the request it
  returns; \<open>has_callback\<close> says whether \<open>callback\<close> was given.
\<close>

record config =
  p_strategy :: "string \<Rightarrow> strategy option"
  p_transformAuthInfo :: "jsval \<Rightarrow> request \<Rightarrow> jsval \<times> jsval"
  req_logIn :: "jsval \<Rightarrow> options \<Rightarrow> request \<Rightarrow> jsval \<times> request"
  multi :: bool
  has_callback :: bool

subsection \<open>The handler\<close>

text \<open>\<open>redirect(url)\<close>: through \<open>req.session.save\<close> when the session has one (the
  store then calls back, and the redirect follows), directly otherwise.\<close>

definition redirect :: "jsval \<Rightarrow> world \<Rightarrow> world" where
  "redirect url w =
     (case req_session (req w) of
        None \<Rightarrow> emit (ResRedirect url) w
      | Some s \<Rightarrow> if save_fn s then emit (ResRedirect url) (emit SessionSave w)
                  else emit (ResRedirect url) w)"

text \<open>
  The flash block, which \<open>allFailed\<close> and \<open>success\<close> share up to the default type
  \<open>d\<close> and the value \<open>src\<close> (the challenge, the info) the message falls back to.
  Given the truthy option value it returns the flash object after
  \<open>flash.type = flash.type || d\<close> and the \<open>req.flash\<close> call to make, if any. The file
  is in strict mode: setting a property of a number throws.
\<close>

definition flash_block :: "string \<Rightarrow> jsval \<Rightarrow> jsval \<Rightarrow> exn + jsval \<times> event list" where
  "flash_block d flash0 src =
     (let flash1 = (if is_string flash0
                    then JObj [(''type'', JStr d), (''message'', flash0)] else flash0)
      in case (if is_boolean flash1 then Inr flash1
               else (case flash1 of
                       JObj ps \<Rightarrow>
                         Inr (JObj (put_prop ''type'' (js_or (get_prop flash1 ''type'') (JStr d)) ps))
                     | _ \<Rightarrow> Inl TypeError)) of
           Inl x \<Rightarrow> Inl x
         | Inr flash \<Rightarrow>
             let type = js_or (js_or (get_prop flash ''type'') (get_prop src ''type'')) (JStr d);
                 msg = js_or (js_or (get_prop flash ''message'') (get_prop src ''message'')) src
             in Inr (flash, if is_string msg then [Flash type msg] else []))"

text \<open>The message block: the message to push on \<open>req.session.messages\<close>, if any.\<close>

definition message_block :: "jsval \<Rightarrow> jsval \<Rightarrow> jsval option" where
  "message_block msg0 src =
     (let msg = (if is_boolean msg0 then js_or (get_prop src ''message'') src else msg0)
      in if is_string msg then Some msg else None)"

text \<open>\<open>req.session.messages = req.session.messages || []; req.session.messages.push(msg)\<close>\<close>

definition push_message :: "jsval \<Rightarrow> world \<Rightarrow> outcome" where
  "push_message msg w =
     (case req_session (req w) of
        None \<Rightarrow> Threw TypeError w
      | Some s \<Rightarrow>
          Done (w\<lparr>req := (req w)\<lparr>req_session :=
                  Some (s\<lparr>messages := Some ((case messages s of None \<Rightarrow> [] | Some ms \<Rightarrow> ms) @ [msg])\<rparr>)\<rparr>\<rparr>))"

text \<open>\<open>if (options.failureFlash) { ... }\<close>. An object given as the option is the object
  the block writes \<open>type\<close> to; a string is replaced by a fresh object.\<close>

definition flash_failure :: "jsval \<Rightarrow> world \<Rightarrow> outcome" where
  "flash_failure src w =
     (if truthy (failureFlash (opts w)) then
        (case flash_block ''error'' (failureFlash (opts w)) src of
           Inl x \<Rightarrow> Threw x w
         | Inr (flash, calls) \<Rightarrow>
             let w1 = (if is_string (failureFlash (opts w)) then w
                       else w\<lparr>opts := (opts w)\<lparr>failureFlash := flash\<rparr>\<rparr>)
             in if calls = [] then Done w1
                else if flash_fn (req w1) then Done (w1\<lparr>trace := trace w1 @ calls\<rparr>)
                else Threw TypeError w1)
      else Done w)"

definition message_failure :: "jsval \<Rightarrow> world \<Rightarrow> outcome" where
  "message_failure src w =
     (if truthy (failureMessage (opts w)) then
        (case message_block (failureMessage (opts w)) src of
           None \<Rightarrow> Done w
         | Some msg \<Rightarrow> push_message msg w)
      else Done w)"

text \<open>The \<open>forEach\<close> over the failures: the string challenges and the first truthy status.\<close>

definition collect :: "failure list \<Rightarrow> jsval list \<times> jsval" where
  "collect failures =
     fold (\<lambda>f (rchallenge, rstatus).
             (if is_string (challenge f) then rchallenge @ [challenge f] else rchallenge,
              js_or rstatus (status f)))
          failures ([], JUndefined)"

text \<open>The end of \<open>allFailed\<close>, after the flash and message blocks: the failure
  redirect, or the default response.\<close>

definition respond :: "failure list \<Rightarrow> world \<Rightarrow> world" where
  "respond failures w =
     (if truthy (failureRedirect (opts w)) then redirect (failureRedirect (opts w)) w
      else
        (case collect failures of
           (rchallenge, rstatus) \<Rightarrow>
             let w3 = w\<lparr>res := (res w)\<lparr>statusCode := js_or rstatus (JNum 401)\<rparr>\<rparr>;
                 w4 = (if statusCode (res w3) = JNum 401 \<and> rchallenge \<noteq> []
                       then emit (SetHeader ''WWW-Authenticate'' (HList rchallenge)) w3
                       else w3)
             in if truthy (failWithError (opts w4))
                then emit (Next (AuthenticationError (StatusText (statusCode (res w4))) rstatus)) w4
                else emit (ResEnd (StatusText (statusCode (res w4)))) w4))"

definition allFailed :: "config \<Rightarrow> failure list \<Rightarrow> world \<Rightarrow> outcome" where
  "allFailed c failures w =
     (if has_callback c then
        (if \<not> multi c then
           (case failures of
              [] \<Rightarrow> Threw TypeError w
            | f # fs \<Rightarrow> Done (emit (Callback (CbFailure (challenge f) (status f))) w))
         else Done (emit (Callback (CbFailures (map challenge failures) (map status failures))) w))
      else
        let src = js_or (case failures of [] \<Rightarrow> JUndefined | f # fs \<Rightarrow> challenge f) (JObj [])
        in bind (flash_failure src w) (\<lambda>w1.
           bind (message_failure src w1) (\<lambda>w2. Done (respond failures w2))))"

definition flash_success :: "jsval \<Rightarrow> world \<Rightarrow> outcome" where
  "flash_success src w =
     (if truthy (successFlash (opts w)) then
        (case flash_block ''success'' (successFlash (opts w)) src of
           Inl x \<Rightarrow> Threw x w
         | Inr (flash, calls) \<Rightarrow>
             let w1 = (if is_string (successFlash (opts w)) then w
                       else w\<lparr>opts := (opts w)\<lparr>successFlash := flash\<rparr>\<rparr>)
             in if calls = [] then Done w1
                else if flash_fn (req w1) then Done (w1\<lparr>trace := trace w1 @ calls\<rparr>)
                else Threw TypeError w1)
      else Done w)"

definition message_success :: "jsval \<Rightarrow> world \<Rightarrow> outcome" where
  "message_success src w =
     (if truthy (successMessage (opts w)) then
        (case message_block (successMessage (opts w)) src of
           None \<Rightarrow> Done w
         | Some msg \<Rightarrow> push_message msg w)
      else Done w)"

definition complete :: "world \<Rightarrow> world" where
  "complete w =
     (if truthy (successReturnToOrRedirect (opts w)) then
        (case req_session (req w) of
           None \<Rightarrow> redirect (successReturnToOrRedirect (opts w)) w
         | Some s \<Rightarrow>
             (case returnTo s of
                None \<Rightarrow> redirect (successReturnToOrRedirect (opts w)) w
              | Some url \<Rightarrow>
                  if truthy url
                  then redirect url (w\<lparr>req := (req w)\<lparr>req_session := Some (s\<lparr>returnTo := None\<rparr>)\<rparr>\<rparr>)
                  else redirect (successReturnToOrRedirect (opts w)) w))
      else if truthy (successRedirect (opts w)) then redirect (successRedirect (opts w)) w
      else emit (Next NoError) w)"

text \<open>The callback handed to \<open>req.logIn\<close>, run on the request the login left.\<close>

definition after_logIn :: "config \<Rightarrow> jsval \<Rightarrow> jsval \<Rightarrow> world \<Rightarrow> world" where
  "after_logIn c info err w =
     (if truthy err then emit (Next (Err err)) w
      else if authInfo (opts w) \<noteq> JBool False then
        (case p_transformAuthInfo c info (req w) of
           (err2, tinfo) \<Rightarrow>
             if truthy err2 then emit (Next (Err err2)) w
             else complete (w\<lparr>req := (req w)\<lparr>req_authInfo := tinfo\<rparr>\<rparr>))
      else complete w)"

text \<open>\<open>req.session\<close> after \<open>req.session = v\<close>. A value of this model is never a
  function or an array: the session it makes has no \<open>save\<close> function and no messages
  array, and keeps the \<open>returnTo\<close> of an object.\<close>

definition session_view :: "jsval \<Rightarrow> session option" where
  "session_view v =
     (if truthy v
      then Some \<lparr> save_fn = False,
                  returnTo = (case v of JObj ps \<Rightarrow> map_of ps ''returnTo'' | _ \<Rightarrow> None),
                  messages = None \<rparr>
      else None)"

text \<open>\<open>req[key] = user\<close>: a key that names a property the request record holds writes
  that property; any other write is appended to \<open>assigned\<close>.\<close>

definition assign_property :: "jsval \<Rightarrow> jsval \<Rightarrow> request \<Rightarrow> request" where
  "assign_property key user r =
     (if key = JStr ''session'' then r\<lparr>req_session := session_view user\<rparr>
      else if key = JStr ''flash'' then r\<lparr>flash_fn := False\<rparr>
      else if key = JStr ''authInfo'' then r\<lparr>req_authInfo := user\<rparr>
      else r\<lparr>assigned := assigned r @ [(key, user)]\<rparr>)"

text \<open>The end of \<open>success\<close>, after the flash and message blocks: the property
  assignment, or the login.\<close>

definition proceed :: "config \<Rightarrow> jsval \<Rightarrow> jsval \<Rightarrow> world \<Rightarrow> world" where
  "proceed c user info w =
     (if truthy (assignProperty (opts w))
      then emit (Next NoError) (w\<lparr>req := assign_property (assignProperty (opts w)) user (req w)\<rparr>)
      else
        (case req_logIn c user (opts w) (req w) of
           (err, r) \<Rightarrow> after_logIn c info err (w\<lparr>req := r\<rparr>)))"

definition success :: "config \<Rightarrow> jsval \<Rightarrow> jsval \<Rightarrow> world \<Rightarrow> outcome" where
  "success c user info0 w =
     (if has_callback c then Done (emit (Callback (CbSuccess user info0)) w)
      else
        let info = js_or info0 (JObj [])
        in bind (flash_success info w) (\<lambda>w1.
           bind (message_success info w1) (\<lambda>w2. Done (proceed c user info w2))))"

text \<open>\<open>strategy.fail\<close>: a numeric first argument is the status. The record is pushed; the
  caller goes on with the next layer.\<close>

definition fail :: "jsval \<Rightarrow> jsval \<Rightarrow> failure list \<Rightarrow> failure list" where
  "fail challenge0 status0 failures =
     (if is_number challenge0
      then failures @ [\<lparr> challenge = JUndefined, status = challenge0 \<rparr>]
      else failures @ [\<lparr> challenge = challenge0, status = status0 \<rparr>])"

text \<open>\<open>strategy.redirect\<close>, which writes the response itself.\<close>

definition strategy_redirect :: "jsval \<Rightarrow> jsval \<Rightarrow> world \<Rightarrow> world" where
  "strategy_redirect url status0 w =
     emit (ResEnd NoBody)
       (emit (SetHeader ''Content-Length'' (HValue (JStr ''0'')))
         (emit (SetHeader ''Location'' (HValue url))
           (w\<lparr>res := (res w)\<lparr>statusCode := js_or status0 (JNum 302)\<rparr>\<rparr>)))"

definition strategy_error :: "config \<Rightarrow> jsval \<Rightarrow> world \<Rightarrow> world" where
  "strategy_error c err w =
     (if has_callback c then emit (Callback (CbError err)) w else emit (Next (Err err)) w)"

text \<open>What \<open>attempt\<close> finds at \<open>name[i]\<close>: nothing (a missing or falsy entry: the empty
  string), a name the registry does not know, or a strategy.\<close>

datatype resolution = NoLayer | NoPrototype string | Strategy strategy

definition resolve :: "(string \<Rightarrow> strategy option) \<Rightarrow> layer \<Rightarrow> resolution" where
  "resolve registry layer =
     (case layer of
        Instance strategy \<Rightarrow> Strategy strategy
      | Name s \<Rightarrow>
          if s = [] then NoLayer
          else (case registry s of None \<Rightarrow> NoPrototype s | Some prototype \<Rightarrow> Strategy prototype))"

text \<open>\<open>attempt(i)\<close>, on the layers from index \<open>i\<close> on; \<open>attempt(i + 1)\<close> is the call on
  the rest.\<close>

fun attempt :: "config \<Rightarrow> layer list \<Rightarrow> failure list \<Rightarrow> world \<Rightarrow> outcome" where
  "attempt c [] failures w = allFailed c failures w"
| "attempt c (layer # rest) failures w =
     (case resolve (p_strategy c) layer of
        NoLayer \<Rightarrow> allFailed c failures w
      | NoPrototype s \<Rightarrow> Done (emit (Next (UnknownStrategy s)) w)
      | Strategy strategy \<Rightarrow>
          (case strategy (req w) (opts w) of
             CallSuccess user info \<Rightarrow> success c user info w
           | CallFail challenge0 status0 \<Rightarrow> attempt c rest (fail challenge0 status0 failures) w
           | CallRedirect url status0 \<Rightarrow> Done (strategy_redirect url status0 w)
           | CallPass \<Rightarrow> Done (emit (Next NoError) w)
           | CallError err \<Rightarrow> Done (strategy_error c err w)))"

text \<open>The factory's arguments: \<open>name\<close> is one layer or an array; in the place of
  \<open>options\<close> there is nothing, an object or a function (then it is the callback).\<close>

datatype name_arg = Single layer | Many "layer list"

datatype options_arg = OptionsMissing | OptionsObject options | OptionsFunction

record host =
  h_strategy :: "string \<Rightarrow> strategy option"
  h_transformAuthInfo :: "jsval \<Rightarrow> request \<Rightarrow> jsval \<times> jsval"
  h_logIn :: "jsval \<Rightarrow> options \<Rightarrow> request \<Rightarrow> jsval \<times> request"

fun chain_of :: "name_arg \<Rightarrow> layer list" where
  "chain_of (Single layer) = [layer]"
| "chain_of (Many layers) = layers"

fun is_multi :: "name_arg \<Rightarrow> bool" where
  "is_multi (Single layer) = False"
| "is_multi (Many layers) = True"

fun options_of :: "options_arg \<Rightarrow> options" where
  "options_of (OptionsObject options) = options"
| "options_of _ = no_options"

definition config_of :: "host \<Rightarrow> name_arg \<Rightarrow> options_arg \<Rightarrow> bool \<Rightarrow> config" where
  "config_of h name options callback =
     \<lparr> p_strategy = h_strategy h, p_transformAuthInfo = h_transformAuthInfo h,
       req_logIn = h_logIn h, multi = is_multi name,
       has_callback = (options = OptionsFunction \<or> callback) \<rparr>"

definition start :: "options_arg \<Rightarrow> request \<Rightarrow> response \<Rightarrow> world" where
  "start options r s = \<lparr> req = r, res = s, opts = options_of options, trace = [] \<rparr>"

text \<open>\<open>authenticate(passport, name, options, callback)(req, res, next)\<close>\<close>

definition authenticate ::
  "host \<Rightarrow> name_arg \<Rightarrow> options_arg \<Rightarrow> bool \<Rightarrow> request \<Rightarrow> response \<Rightarrow> outcome" where
  "authenticate h name options callback r s =
     attempt (config_of h name options callback) (chain_of name) [] (start options r s)"

section \<open>Vocabulary of the properties\<close>

text \<open>The failure records left when every layer of a stretch of the chain resolves to a
  strategy that calls \<open>fail\<close> on this request and these options; \<open>None\<close> when some
  layer does anything else.\<close>

fun failing ::
  "(string \<Rightarrow> strategy option) \<Rightarrow> request \<Rightarrow> options \<Rightarrow> layer list \<Rightarrow> failure list
     \<Rightarrow> failure list option" where
  "failing registry r options [] failures = Some failures"
| "failing registry r options (layer # rest) failures =
     (case resolve registry layer of
        Strategy strategy \<Rightarrow>
          (case strategy r options of
             CallFail challenge0 status0 \<Rightarrow>
               failing registry r options rest (fail challenge0 status0 failures)
           | _ \<Rightarrow> None)
      | _ \<Rightarrow> None)"

text \<open>The string challenges of the failure records, in order, and their first non-empty
  (truthy) status, 401 when there is none.\<close>

definition string_challenges :: "failure list \<Rightarrow> jsval list" where
  "string_challenges failures = filter is_string (map challenge failures)"

definition first_nonempty_status :: "failure list \<Rightarrow> jsval" where
  "first_nonempty_status failures =
     (case find truthy (map status failures) of None \<Rightarrow> JNum 401 | Some s \<Rightarrow> s)"

text \<open>A flash object after \<open>flash.type = flash.type || d\<close>; other values as they are.
  \<open>untyped_object\<close> are the values this changes: objects without a truthy type.\<close>

definition defaulted :: "string \<Rightarrow> jsval \<Rightarrow> jsval" where
  "defaulted d v =
     (case v of
        JObj ps \<Rightarrow> JObj (put_prop ''type'' (js_or (get_prop v ''type'') (JStr d)) ps)
      | _ \<Rightarrow> v)"

definition untyped_object :: "jsval \<Rightarrow> bool" where
  "untyped_object v = (case v of JObj ps \<Rightarrow> \<not> truthy (get_prop v ''type'') | _ \<Rightarrow> False)"

text \<open>The calls of the default response: the header, when it is set, and the end of the
  response (or \<open>next\<close> with the authentication error, under \<open>failWithError\<close>).\<close>

definition challenge_header :: "failure list \<Rightarrow> event list" where
  "challenge_header failures =
     (if first_nonempty_status failures = JNum 401 \<and> string_challenges failures \<noteq> []
      then [SetHeader ''WWW-Authenticate'' (HList (string_challenges failures))] else [])"

definition final_event :: "jsval \<Rightarrow> failure list \<Rightarrow> event" where
  "final_event fwe failures =
     (if truthy fwe
      then Next (AuthenticationError (StatusText (first_nonempty_status failures)) (snd (collect failures)))
      else ResEnd (StatusText (first_nonempty_status failures)))"

text \<open>The completion of a success, in the words of the specification: with
  \<open>successReturnToOrRedirect\<close> configured, redirect to the session's stored return-to
  URL if there is one, deleting it, else to the configured URL; else with
  \<open>successRedirect\<close> configured, redirect there; else go on to the next stage. A
  redirect comes after the session save when the session has one.\<close>

definition saves :: "request \<Rightarrow> event list" where
  "saves r =
     (case req_session r of None \<Rightarrow> [] | Some s \<Rightarrow> if save_fn s then [SessionSave] else [])"

definition pending_returnTo :: "request \<Rightarrow> jsval option" where
  "pending_returnTo r =
     (case req_session r of
        None \<Rightarrow> None
      | Some s \<Rightarrow> (case returnTo s of None \<Rightarrow> None | Some v \<Rightarrow> if truthy v then Some v else None))"

definition redirect_target :: "options \<Rightarrow> request \<Rightarrow> jsval option" where
  "redirect_target options r =
     (if truthy (successReturnToOrRedirect options)
      then (case pending_returnTo r of
              None \<Rightarrow> Some (successReturnToOrRedirect options)
            | Some v \<Rightarrow> Some v)
      else if truthy (successRedirect options) then Some (successRedirect options)
      else None)"

definition completed_request :: "options \<Rightarrow> request \<Rightarrow> request" where
  "completed_request options r =
     (if truthy (successReturnToOrRedirect options) \<and> pending_returnTo r \<noteq> None
      then r\<lparr>req_session := map_option (\<lambda>s. s\<lparr>returnTo := None\<rparr>) (req_session r)\<rparr>
      else r)"

definition completion_calls :: "options \<Rightarrow> request \<Rightarrow> event list" where
  "completion_calls options r =
     (case redirect_target options r of
        None \<Rightarrow> [Next NoError]
      | Some u \<Rightarrow> saves r @ [ResRedirect u])"

text \<open>The calls a success may make, given where its completion redirects to: flash, session
  save, \<open>next\<close> without an error or with one handed over by a collaborator, and the
  redirect to that target; no header, no body, no callback.\<close>

definition success_event :: "jsval option \<Rightarrow> event \<Rightarrow> bool" where
  "success_event target e =
     (case e of
        Flash t m \<Rightarrow> True
      | SessionSave \<Rightarrow> True
      | ResRedirect u \<Rightarrow> target = Some u
      | Next a \<Rightarrow> (case a of NoError \<Rightarrow> True | Err x \<Rightarrow> True | _ \<Rightarrow> False)
      | _ \<Rightarrow> False)"

subsection \<open>Concrete inputs\<close>

text \<open>A request without session and flash, a response, a host with an empty registry whose
  login and info transformation succeed and change nothing, and strategies that call one
  action whatever they are given.\<close>

definition plain_request :: request where
  "plain_request = \<lparr> req_session = None, flash_fn = False, assigned = [], req_authInfo = JUndefined \<rparr>"

definition fresh_response :: response where
  "fresh_response = \<lparr> statusCode = JNum 200 \<rparr>"

definition no_host :: host where
  "no_host = \<lparr> h_strategy = (\<lambda>s. None),
               h_transformAuthInfo = (\<lambda>info r. (JUndefined, info)),
               h_logIn = (\<lambda>user options r. (JUndefined, r)) \<rparr>"

text \<open>A host whose login succeeds, sets \<open>req.user\<close> and makes the session when there
  is none, as the login of the session manager does.\<close>

definition session_host :: host where
  "session_host =
     \<lparr> h_strategy = (\<lambda>s. None),
       h_transformAuthInfo = (\<lambda>info r. (JUndefined, info)),
       h_logIn = (\<lambda>user options r.
         (JUndefined,
          r\<lparr>req_session :=
               Some (case req_session r of
                       None \<Rightarrow> \<lparr> save_fn = False, returnTo = None, messages = None \<rparr>
                     | Some s \<Rightarrow> s),
            assigned := assigned r @ [(JStr ''user'', user)]\<rparr>)) \<rparr>"

definition pass_on :: strategy where
  "pass_on r options = CallPass"

definition fail_basic :: strategy where
  "fail_basic r options = CallFail (JStr ''basic'') (JNum 401)"

definition fail_bearer :: strategy where
  "fail_bearer r options = CallFail (JStr ''bearer'') (JNum 401)"

definition fail_object :: strategy where
  "fail_object r options = CallFail (JObj [(''type'', JStr ''x'')]) (JNum 403)"

definition fail_bare :: strategy where
  "fail_bare r options = CallFail JUndefined JUndefined"

definition fail_number :: strategy where
  "fail_number r options = CallFail (JNum 401) JUndefined"

definition fail_status :: strategy where
  "fail_status r options = CallFail JUndefined (JNum 401)"

definition succeed_alice :: strategy where
  "succeed_alice r options = CallSuccess (JStr ''alice'') JUndefined"

text \<open>A session holding \<open>returnTo = "/dash"\<close>, and options with one success redirect
  each.\<close>

definition dash_session :: session where
  "dash_session = \<lparr> save_fn = False, returnTo = Some (JStr ''/dash''), messages = None \<rparr>"

definition dash_request :: request where
  "dash_request = plain_request\<lparr>req_session := Some dash_session\<rparr>"

definition redirect_options :: options where
  "redirect_options = no_options\<lparr>successRedirect := JStr ''/home''\<rparr>"

definition return_options :: options where
  "return_options = no_options\<lparr>successReturnToOrRedirect := JStr ''/home''\<rparr>"

text \<open>Options with an object and with a string as \<open>failureFlash\<close>, and a request
  that can flash.\<close>

definition flash_options :: options where
  "flash_options = no_options\<lparr>failureFlash := JObj [(''message'', JStr ''Denied'')]\<rparr>"

definition string_flash_options :: options where
  "string_flash_options = no_options\<lparr>failureFlash := JStr ''Denied''\<rparr>"

definition flash_request :: request where
  "flash_request = plain_request\<lparr>flash_fn := True\<rparr>"

section \<open>Properties of the session manager\<close>

lemma map_of_delete_prop:
  "map_of (delete_prop k ps) k' = (if k' = k then None else map_of ps k')"
  by (induction ps) (auto simp: delete_prop_def)

lemma delete_prop_idem: "delete_prop k (delete_prop k ps) = delete_prop k ps"
  by (simp add: delete_prop_def)

lemma length_delete_slot: "length (delete_slot h v k) = length h"
  by (simp add: delete_slot_def split: slot.splits)

lemma deref_delete_slot:
  "deref (delete_slot h v k) b =
     (if v = Ref b \<and> b < length h then delete_prop k (deref h b) else deref h b)"
  by (auto simp: delete_slot_def deref_def split: slot.splits)

lemma read_delete_slot_other:
  "k' \<noteq> k \<Longrightarrow> read_slot (delete_slot h v k) u k' = read_slot h u k'"
  by (auto simp: read_slot_def deref_delete_slot map_of_delete_prop split: slot.splits)

lemma delete_slot_idem: "delete_slot (delete_slot h v k) v k = delete_slot h v k"
  by (auto simp: delete_slot_def delete_prop_idem split: slot.splits)

text \<open>
  C10. When the serializer completes with an error, \<open>logIn\<close> invokes its callback once,
  with that error, and returns the request as it was: the store, \<open>req._passport\<close> and
  \<open>req.session\<close> are all unchanged, so no session substructure is created and no
  \<open>user\<close> is written.
\<close>

theorem logIn_serializer_error:
  assumes "p_serializeUser self user rq = (err, obj)" and "truthy err"
  shows "logIn self rq user = (Completed [err], rq)"
  using assms by (simp add: logIn_def)

theorem logIn_serializer_error_witness:
  "p_serializeUser failing_manager (JNum 1) fresh_request = (JStr ''serialize failed'', JUndefined)
   \<and> truthy (JStr ''serialize failed'')
   \<and> logIn failing_manager fresh_request (JNum 1) = (Completed [JStr ''serialize failed''], fresh_request)"
proof -
  have s: "p_serializeUser failing_manager (JNum 1) fresh_request = (JStr ''serialize failed'', JUndefined)"
    by (simp add: failing_manager_def SessionManager_def)
  have t: "truthy (JStr ''serialize failed'')" by simp
  from logIn_serializer_error [OF s t] s t show ?thesis by simp
qed

lemma logged_in_request_eq:
  "logged_in_request =
     \<lparr> heap = [ [(''session'', Ref 1)], [(''user'', Val (JNum 42))], [(''passport'', Ref 1)] ],
       passport_slot = Ref 0, session_slot = Ref 2 \<rparr>"
  by (simp add: logged_in_request_def logIn_def id_manager_def SessionManager_def fresh_request_def
      read_slot_def write_slot_def deref_def Let_def)

lemma logOut_step:
  "snd (logOut rq cb) =
     (if truthy_slot (passport_slot rq)
            \<and> truthy_slot (read_slot (heap rq) (passport_slot rq) ''session'')
      then rq\<lparr>heap := delete_slot (heap rq) (read_slot (heap rq) (passport_slot rq) ''session'') ''user''\<rparr>
      else rq)"
  "fst (logOut rq cb) = (if cb then Completed [] else NotNotified)"
  by (simp_all add: logOut_def Let_def)

text \<open>
  C8 (as amended). For every request, \<open>logOut\<close> invokes the callback once, without an
  error, when one is given; leaves \<open>req._passport\<close>, \<open>req.session\<close> and the size
  of the store as they were; changes no property of any object other than \<open>user\<close> of
  the object \<open>req._passport.session\<close> refers to, which it deletes; and a second call
  changes nothing more. When \<open>req._passport.session\<close> and \<open>req.session[key]\<close>
  are the same object (what \<open>logIn\<close> establishes), \<open>session[key].user\<close> is gone
  afterwards.
\<close>

theorem logOut_frame:
  "fst (logOut rq cb) = (if cb then Completed [] else NotNotified)
   \<and> passport_slot (snd (logOut rq cb)) = passport_slot rq
   \<and> session_slot (snd (logOut rq cb)) = session_slot rq
   \<and> length (heap (snd (logOut rq cb))) = length (heap rq)
   \<and> (\<forall>b k. \<not> (read_slot (heap rq) (passport_slot rq) ''session'' = Ref b \<and> k = ''user'')
        \<longrightarrow> map_of (deref (heap (snd (logOut rq cb))) b) k = map_of (deref (heap rq) b) k)
   \<and> (passport_slot rq = Ref p \<and> read_slot (heap rq) (Ref p) ''session'' = Ref a
      \<longrightarrow> map_of (deref (heap (snd (logOut rq cb))) a) ''user'' = None)
   \<and> (passport_slot rq = Ref p \<and> read_slot (heap rq) (Ref p) ''session'' = Ref a
        \<and> session_slot rq = Ref s \<and> read_slot (heap rq) (Ref s) key = Ref a
      \<longrightarrow> read_slot (heap (snd (logOut rq cb)))
            (read_slot (heap (snd (logOut rq cb))) (session_slot (snd (logOut rq cb))) key)
            ''user'' = Val JUndefined)
   \<and> logOut (snd (logOut rq cb)) cb = logOut rq cb"
proof -
  let ?r = "snd (logOut rq cb)"
  have c: "fst (logOut rq cb) = (if cb then Completed [] else NotNotified)"
    by (rule logOut_step)
  have p: "passport_slot ?r = passport_slot rq" and s: "session_slot ?r = session_slot rq"
    by (simp_all add: logOut_step)
  have l: "length (heap ?r) = length (heap rq)"
    by (simp add: logOut_step length_delete_slot)
  have f: "\<forall>b k. \<not> (read_slot (heap rq) (passport_slot rq) ''session'' = Ref b \<and> k = ''user'')
        \<longrightarrow> map_of (deref (heap ?r) b) k = map_of (deref (heap rq) b) k"
    by (auto simp: logOut_step deref_delete_slot map_of_delete_prop)
  have g: "map_of (deref (heap ?r) a) ''user'' = None"
    if h: "passport_slot rq = Ref p" "read_slot (heap rq) (Ref p) ''session'' = Ref a"
  proof -
    have r: "heap ?r = delete_slot (heap rq) (Ref a) ''user''"
      using h by (simp add: logOut_step)
    have "deref (heap ?r) a =
            (if a < length (heap rq) then delete_prop ''user'' (deref (heap rq) a) else [])"
      by (simp add: r deref_delete_slot) (simp add: deref_def)
    then show ?thesis
      by (simp add: map_of_delete_prop)
  qed
  have u: "read_slot (heap ?r) (read_slot (heap ?r) (session_slot ?r) key) ''user'' = Val JUndefined"
    if h: "passport_slot rq = Ref p" "read_slot (heap rq) (Ref p) ''session'' = Ref a"
       "session_slot rq = Ref s" "read_slot (heap rq) (Ref s) key = Ref a"
  proof -
    have r: "heap ?r = delete_slot (heap rq) (Ref a) ''user''"
      using h by (simp add: logOut_step)
    have "read_slot (heap ?r) (Ref s) key = Ref a \<or> read_slot (heap ?r) (Ref s) key = Val JUndefined"
      using h(4) by (auto simp: r read_slot_def deref_delete_slot map_of_delete_prop split: option.splits)
    then have "read_slot (heap ?r) (read_slot (heap ?r) (Ref s) key) ''user'' = Val JUndefined"
      using g [OF h(1,2)] by (auto simp: read_slot_def)
    then show ?thesis using h(3) s by simp
  qed
  have i: "logOut ?r cb = logOut rq cb"
    by (rule prod_eqI) (auto simp: logOut_step read_delete_slot_other delete_slot_idem)
  from c p s l f g u i show ?thesis by blast
qed

theorem logOut_frame_witness:
  "passport_slot logged_in_request = Ref 0
   \<and> read_slot (heap logged_in_request) (Ref 0) ''session'' = Ref 1
   \<and> session_slot logged_in_request = Ref 2
   \<and> read_slot (heap logged_in_request) (Ref 2) ''passport'' = Ref 1
   \<and> read_slot (heap logged_in_request) (Ref 1) ''user'' = Val (JNum 42)
   \<and> read_slot (heap (snd (logOut logged_in_request True)))
        (read_slot (heap (snd (logOut logged_in_request True)))
           (session_slot (snd (logOut logged_in_request True))) ''passport'')
        ''user'' = Val JUndefined
   \<and> fst (logOut logged_in_request True) = Completed []"
proof -
  have h: "passport_slot logged_in_request = Ref 0"
    "read_slot (heap logged_in_request) (Ref 0) ''session'' = Ref 1"
    "session_slot logged_in_request = Ref 2"
    "read_slot (heap logged_in_request) (Ref 2) ''passport'' = Ref 1"
    "read_slot (heap logged_in_request) (Ref 1) ''user'' = Val (JNum 42)"
    by (simp_all add: logged_in_request_eq read_slot_def deref_def)
  have "passport_slot logged_in_request = Ref 0
        \<and> read_slot (heap logged_in_request) (Ref 0) ''session'' = Ref 1
        \<and> session_slot logged_in_request = Ref 2
        \<and> read_slot (heap logged_in_request) (Ref 2) ''passport'' = Ref 1
      \<longrightarrow> read_slot (heap (snd (logOut logged_in_request True)))
            (read_slot (heap (snd (logOut logged_in_request True)))
               (session_slot (snd (logOut logged_in_request True))) ''passport'')
            ''user'' = Val JUndefined"
    using logOut_frame [of logged_in_request True 0 1 2 "''passport''"]
    by (elim conjE) assumption
  moreover have "fst (logOut logged_in_request True) = Completed []"
    by (simp add: logOut_step)
  ultimately
  show ?thesis using h by simp
qed

text \<open>
  C8 as stated fails on a request without \<open>_passport\<close>: the guard of \<open>logOut\<close>
  skips the deletion, and \<open>session.passport.user\<close> is still 7 after the call.
\<close>

theorem logOut_without_passport_counterexample:
  "read_slot (heap (snd (logOut bare_request True)))
     (read_slot (heap (snd (logOut bare_request True)))
        (session_slot (snd (logOut bare_request True))) ''passport'')
     ''user'' = Val (JNum 7)"
  by (simp add: logOut_def bare_request_def read_slot_def deref_def)

section \<open>Properties of the dispatcher\<close>

subsection \<open>A stretch of failing strategies\<close>

lemma attempt_failing:
  "failing (p_strategy c) (req w) (opts w) pre failures = Some failures'
   \<Longrightarrow> attempt c (pre @ rest) failures w = attempt c rest failures' w"
proof (induction pre arbitrary: failures)
  case Nil
  then show ?case by simp
next
  case (Cons layer pre)
  then show ?case
    by (auto split: resolution.splits action.splits)
qed

subsection \<open>The accumulation over the failure records\<close>

lemma fold_collect:
  "fst (fold (\<lambda>f (rchallenge, rstatus).
             (if is_string (challenge f) then rchallenge @ [challenge f] else rchallenge,
              js_or rstatus (status f))) failures (rc, rs))
   = rc @ string_challenges failures"
  by (induction failures arbitrary: rc rs) (simp_all add: string_challenges_def)

lemma fold_status:
  "js_or (snd (fold (\<lambda>f (rchallenge, rstatus).
             (if is_string (challenge f) then rchallenge @ [challenge f] else rchallenge,
              js_or rstatus (status f))) failures (rc, rs))) d
   = (if truthy rs then rs
      else case find truthy (map status failures) of None \<Rightarrow> d | Some s \<Rightarrow> s)"
  by (induction failures arbitrary: rc rs) (auto simp: js_or_def)

lemma collect_fst: "fst (collect failures) = string_challenges failures"
  unfolding collect_def by (simp add: fold_collect)

lemma collect_snd: "js_or (snd (collect failures)) (JNum 401) = first_nonempty_status failures"
  unfolding collect_def first_nonempty_status_def by (simp add: fold_status)

subsection \<open>The flash and message blocks of the all-failed procedure\<close>

lemma put_prop_same: "map_of ps k = Some v \<Longrightarrow> put_prop k v ps = ps"
  by (induction ps) (auto split: if_splits)

lemma defaulted_fixed:
  "\<not> (\<exists>ps. v = JObj ps \<and> \<not> truthy (get_prop v ''type'')) \<Longrightarrow> defaulted d v = v"
  by (cases v) (auto simp: defaulted_def js_or_def put_prop_same split: option.splits)

lemma flash_block_result:
  assumes "truthy flash0"
  shows "(is_number flash0 \<and> flash_block d flash0 src = Inl TypeError)
       \<or> (\<exists>flash calls. flash_block d flash0 src = Inr (flash, calls)
            \<and> (is_string flash0 \<or> flash = defaulted d flash0)
            \<and> (calls = [] \<or> (\<exists>t m. calls = [Flash t m])))"
  using assms by (cases flash0) (auto simp: flash_block_def defaulted_def Let_def)

lemma flash_failure_world:
  "\<exists>ff evs. world_of (flash_failure src w)
               = w\<lparr>opts := (opts w)\<lparr>failureFlash := ff\<rparr>, trace := trace w @ evs\<rparr>
     \<and> (ff = failureFlash (opts w) \<or> ff = defaulted ''error'' (failureFlash (opts w)))
     \<and> (evs = [] \<or> (\<exists>t m. evs = [Flash t m]))"
proof (cases "truthy (failureFlash (opts w))")
  case False
  then have "world_of (flash_failure src w)
               = w\<lparr>opts := (opts w)\<lparr>failureFlash := failureFlash (opts w)\<rparr>, trace := trace w @ []\<rparr>"
    by (simp add: flash_failure_def)
  then show ?thesis by blast
next
  case True
  from flash_block_result [OF True, of "''error''" src]
  consider (thrown) "flash_block ''error'' (failureFlash (opts w)) src = Inl TypeError"
    | (normal) flash calls where
        "flash_block ''error'' (failureFlash (opts w)) src = Inr (flash, calls)"
        "is_string (failureFlash (opts w)) \<or> flash = defaulted ''error'' (failureFlash (opts w))"
        "calls = [] \<or> (\<exists>t m. calls = [Flash t m])"
    by blast
  then show ?thesis
  proof cases
    case thrown
    with True have "world_of (flash_failure src w)
               = w\<lparr>opts := (opts w)\<lparr>failureFlash := failureFlash (opts w)\<rparr>, trace := trace w @ []\<rparr>"
      by (simp add: flash_failure_def)
    then show ?thesis by blast
  next
    case normal
    note b = normal(1) and f = normal(2) and c = normal(3)
    define ff where "ff = (if is_string (failureFlash (opts w)) then failureFlash (opts w) else flash)"
    define evs where "evs = (if flash_fn (req w) then calls else [])"
    have "world_of (flash_failure src w)
               = w\<lparr>opts := (opts w)\<lparr>failureFlash := ff\<rparr>, trace := trace w @ evs\<rparr>"
      using True b by (simp add: flash_failure_def ff_def evs_def Let_def)
    moreover have "ff = failureFlash (opts w) \<or> ff = defaulted ''error'' (failureFlash (opts w))"
      using f by (auto simp: ff_def)
    moreover have "evs = [] \<or> (\<exists>t m. evs = [Flash t m])"
      using c by (auto simp: evs_def)
    ultimately show ?thesis by blast
  qed
qed

lemma flash_failure_Done:
  assumes "\<not> truthy (failureFlash (opts w)) \<or> (flash_fn (req w) \<and> \<not> is_number (failureFlash (opts w)))"
  shows "flash_failure src w = Done (world_of (flash_failure src w))"
proof (cases "truthy (failureFlash (opts w))")
  case False
  then show ?thesis by (simp add: flash_failure_def)
next
  case True
  with assms have a: "flash_fn (req w)" "\<not> is_number (failureFlash (opts w))" by auto
  from flash_block_result [OF True, of "''error''" src] a(2)
  obtain flash calls where "flash_block ''error'' (failureFlash (opts w)) src = Inr (flash, calls)"
    by blast
  with True a(1) show ?thesis by (simp add: flash_failure_def Let_def)
qed

lemma message_failure_world:
  "\<exists>ms. world_of (message_failure src w)
          = (case req_session (req w) of
               None \<Rightarrow> w
             | Some s \<Rightarrow> w\<lparr>req := (req w)\<lparr>req_session := Some (s\<lparr>messages := ms\<rparr>)\<rparr>\<rparr>)"
proof (cases "req_session (req w)")
  case None
  then show ?thesis
    by (simp add: message_failure_def push_message_def split: option.splits)
next
  case (Some s)
  show ?thesis
  proof (cases "truthy (failureMessage (opts w)) \<and> message_block (failureMessage (opts w)) src \<noteq> None")
    case True
    then show ?thesis using Some
      by (auto simp: message_failure_def push_message_def)
  next
    case False
    then have "world_of (message_failure src w) = w"
      by (auto simp: message_failure_def)
    also have "w = w\<lparr>req := (req w)\<lparr>req_session := Some (s\<lparr>messages := messages s\<rparr>)\<rparr>\<rparr>"
      using Some by simp
    finally show ?thesis using Some by (metis option.simps(5))
  qed
qed

lemma message_failure_Done:
  assumes "\<not> truthy (failureMessage (opts w)) \<or> req_session (req w) \<noteq> None"
  shows "message_failure src w = Done (world_of (message_failure src w))"
  using assms by (auto simp: message_failure_def push_message_def split: option.splits)

subsection \<open>The default failure response\<close>

lemma allFailed_respond:
  assumes "\<not> has_callback c"
    and "flash_failure (js_or (case failures of [] \<Rightarrow> JUndefined | f # fs \<Rightarrow> challenge f) (JObj [])) w = Done w1"
    and "message_failure (js_or (case failures of [] \<Rightarrow> JUndefined | f # fs \<Rightarrow> challenge f) (JObj [])) w1 = Done w2"
    and "\<not> truthy (failureRedirect (opts w2))"
  shows "allFailed c failures w =
           Done (w2\<lparr>res := (res w2)\<lparr>statusCode := first_nonempty_status failures\<rparr>,
                    trace := trace w2 @ challenge_header failures
                               @ [final_event (failWithError (opts w2)) failures]\<rparr>)"
  using assms
  by (simp add: allFailed_def respond_def Let_def split_beta collect_fst collect_snd emit_def
      challenge_header_def final_event_def)

lemma authenticate_failing:
  assumes "failing (h_strategy h) rq options (chain_of name) [] = Some failures"
  shows "authenticate h name (OptionsObject options) cb rq rs
         = allFailed (config_of h name (OptionsObject options) cb) failures
             (start (OptionsObject options) rq rs)"
proof -
  let ?c = "config_of h name (OptionsObject options) cb"
  let ?w = "start (OptionsObject options) rq rs"
  have "failing (p_strategy ?c) (req ?w) (opts ?w) (chain_of name) [] = Some failures"
    using assms by (simp add: config_of_def start_def)
  from attempt_failing [OF this, of "[]"] show ?thesis
    by (simp add: authenticate_def)
qed

text \<open>
  C2. A dispatch without a callback in which every strategy of the chain fails, with no
  \<open>failureRedirect\<close> and with flash and message options that do not throw (no flash
  option, or \<open>req.flash\<close> present and the option not a number; no message option, or
  a session present): it returns, the response status is the first non-empty status of the
  failure records, 401 when there is none, and \<open>setHeader('WWW-Authenticate', v)\<close> is
  called exactly for \<open>v\<close> the string challenges in accumulation order, and only when
  that status is the number 401 and there is a string challenge. Non-empty is what
  \<open>rstatus || status\<close> tests: undefined, null, 0, the empty string and false are empty.
\<close>

theorem allFailed_default_response:
  assumes "failing (h_strategy h) rq options (chain_of name) [] = Some failures"
    and "\<not> truthy (failureRedirect options)"
    and "\<not> truthy (failureFlash options) \<or> (flash_fn rq \<and> \<not> is_number (failureFlash options))"
    and "\<not> truthy (failureMessage options) \<or> req_session rq \<noteq> None"
  shows "\<exists>w'. authenticate h name (OptionsObject options) False rq rs = Done w'
          \<and> statusCode (res w') = first_nonempty_status failures
          \<and> (\<forall>v. SetHeader ''WWW-Authenticate'' v \<in> set (trace w')
                 \<longleftrightarrow> v = HList (string_challenges failures)
                     \<and> first_nonempty_status failures = JNum 401
                     \<and> string_challenges failures \<noteq> [])"
proof -
  let ?c = "config_of h name (OptionsObject options) False"
  let ?w = "start (OptionsObject options) rq rs"
  let ?src = "js_or (case failures of [] \<Rightarrow> JUndefined | f # fs \<Rightarrow> challenge f) (JObj [])"
  define w1 where "w1 = world_of (flash_failure ?src ?w)"
  define w2 where "w2 = world_of (message_failure ?src w1)"
  have nc: "\<not> has_callback ?c" by (simp add: config_of_def)
  have w: "opts ?w = options" "req ?w = rq" "trace ?w = []"
    by (simp_all add: start_def)
  obtain ff evs where w1: "w1 = ?w\<lparr>opts := (opts ?w)\<lparr>failureFlash := ff\<rparr>, trace := trace ?w @ evs\<rparr>"
    and evs: "evs = [] \<or> (\<exists>t m. evs = [Flash t m])"
    using flash_failure_world [of ?src ?w] unfolding w1_def by blast
  have d1: "flash_failure ?src ?w = Done w1"
    unfolding w1_def using assms(3) w by (intro flash_failure_Done) simp
  have w1': "failureMessage (opts w1) = failureMessage options" "req w1 = rq"
    "failureRedirect (opts w1) = failureRedirect options" "trace w1 = evs"
    by (simp_all add: w1 w)
  have d2: "message_failure ?src w1 = Done w2"
    unfolding w2_def using assms(4) w1' by (intro message_failure_Done) simp
  obtain ms where "w2 = (case req_session (req w1) of None \<Rightarrow> w1
             | Some s \<Rightarrow> w1\<lparr>req := (req w1)\<lparr>req_session := Some (s\<lparr>messages := ms\<rparr>)\<rparr>\<rparr>)"
    using message_failure_world [of ?src w1] unfolding w2_def by blast
  then have w2': "failureRedirect (opts w2) = failureRedirect options" "trace w2 = evs"
    using w1' by (auto split: option.splits)
  have r: "\<not> truthy (failureRedirect (opts w2))"
    using assms(2) w2' by simp
  let ?w' = "w2\<lparr>res := (res w2)\<lparr>statusCode := first_nonempty_status failures\<rparr>,
                    trace := trace w2 @ challenge_header failures
                               @ [final_event (failWithError (opts w2)) failures]\<rparr>"
  have "authenticate h name (OptionsObject options) False rq rs = Done ?w'"
    using authenticate_failing [OF assms(1)] allFailed_respond [OF nc d1 d2 r] by simp
  moreover have "statusCode (res ?w') = first_nonempty_status failures" by simp
  moreover have "\<forall>v. SetHeader ''WWW-Authenticate'' v \<in> set (trace ?w')
                 \<longleftrightarrow> v = HList (string_challenges failures)
                     \<and> first_nonempty_status failures = JNum 401
                     \<and> string_challenges failures \<noteq> []"
    using evs w2' by (auto simp: challenge_header_def final_event_def)
  ultimately show ?thesis by blast
qed

lemma flash_failure_off: "\<not> truthy (failureFlash (opts w)) \<Longrightarrow> flash_failure src w = Done w"
  by (simp add: flash_failure_def)

lemma message_failure_off: "\<not> truthy (failureMessage (opts w)) \<Longrightarrow> message_failure src w = Done w"
  by (simp add: message_failure_def)

lemma allFailed_plain:
  assumes "\<not> has_callback c" and "\<not> truthy (failureFlash (opts w))"
    and "\<not> truthy (failureMessage (opts w))" and "\<not> truthy (failureRedirect (opts w))"
  shows "allFailed c failures w =
           Done (w\<lparr>res := (res w)\<lparr>statusCode := first_nonempty_status failures\<rparr>,
                   trace := trace w @ challenge_header failures
                              @ [final_event (failWithError (opts w)) failures]\<rparr>)"
  by (rule allFailed_respond [OF assms(1) flash_failure_off [OF assms(2)]
        message_failure_off [OF assms(3)] assms(4)])

theorem allFailed_default_response_witness:
  "failing (h_strategy no_host) plain_request no_options
       (chain_of (Many [Instance fail_basic, Instance fail_object, Instance fail_bearer])) []
     = Some [\<lparr>challenge = JStr ''basic'', status = JNum 401\<rparr>,
             \<lparr>challenge = JObj [(''type'', JStr ''x'')], status = JNum 403\<rparr>,
             \<lparr>challenge = JStr ''bearer'', status = JNum 401\<rparr>]
   \<and> \<not> truthy (failureRedirect no_options)
   \<and> \<not> truthy (failureFlash no_options)
   \<and> \<not> truthy (failureMessage no_options)
   \<and> statusCode (res (world_of (authenticate no_host
          (Many [Instance fail_basic, Instance fail_object, Instance fail_bearer])
          (OptionsObject no_options) False plain_request fresh_response))) = JNum 401
   \<and> SetHeader ''WWW-Authenticate'' (HList [JStr ''basic'', JStr ''bearer''])
        \<in> set (trace (world_of (authenticate no_host
          (Many [Instance fail_basic, Instance fail_object, Instance fail_bearer])
          (OptionsObject no_options) False plain_request fresh_response)))"
proof -
  let ?fs = "[\<lparr>challenge = JStr ''basic'', status = JNum 401\<rparr>,
             \<lparr>challenge = JObj [(''type'', JStr ''x'')], status = JNum 403\<rparr>,
             \<lparr>challenge = JStr ''bearer'', status = JNum 401\<rparr>]"
  have f: "failing (h_strategy no_host) plain_request no_options
       (chain_of (Many [Instance fail_basic, Instance fail_object, Instance fail_bearer])) [] = Some ?fs"
    by (simp add: resolve_def fail_basic_def fail_object_def fail_bearer_def fail_def)
  have o: "\<not> truthy (failureRedirect no_options)"
    "\<not> truthy (failureFlash no_options) \<or> (flash_fn plain_request \<and> \<not> is_number (failureFlash no_options))"
    "\<not> truthy (failureMessage no_options) \<or> req_session plain_request \<noteq> None"
    by (simp_all add: no_options_def)
  have v: "first_nonempty_status ?fs = JNum 401" "string_challenges ?fs = [JStr ''basic'', JStr ''bearer'']"
    by (simp_all add: first_nonempty_status_def string_challenges_def)
  let ?A = "authenticate no_host
          (Many [Instance fail_basic, Instance fail_object, Instance fail_bearer])
          (OptionsObject no_options) False plain_request fresh_response"
  from allFailed_default_response [OF f o, of fresh_response]
  obtain w' where w: "?A = Done w' \<and> statusCode (res w') = first_nonempty_status ?fs
          \<and> (\<forall>v. SetHeader ''WWW-Authenticate'' v \<in> set (trace w')
                 \<longleftrightarrow> v = HList (string_challenges ?fs)
                     \<and> first_nonempty_status ?fs = JNum 401
                     \<and> string_challenges ?fs \<noteq> [])" ..
  have a: "world_of ?A = w'" using w by simp
  have s: "statusCode (res w') = JNum 401" using w v(1) by simp
  have "SetHeader ''WWW-Authenticate'' (HList [JStr ''basic'', JStr ''bearer'']) \<in> set (trace w')
          \<longleftrightarrow> HList [JStr ''basic'', JStr ''bearer''] = HList (string_challenges ?fs)
                     \<and> first_nonempty_status ?fs = JNum 401
                     \<and> string_challenges ?fs \<noteq> []"
    by (rule w [THEN conjunct2, THEN conjunct2, THEN spec])
  then have hd: "SetHeader ''WWW-Authenticate'' (HList [JStr ''basic'', JStr ''bearer'']) \<in> set (trace w')"
    by (simp only: v) simp
  have n: "\<not> truthy (failureFlash no_options)" "\<not> truthy (failureMessage no_options)"
    by (simp_all add: no_options_def)
  from f o(1) n s hd show ?thesis
    unfolding a by (intro conjI)
qed

subsection \<open>Two failures with status 403 first\<close>

lemma authenticate_failing_gen:
  assumes "failing (h_strategy h) rq (options_of oa) pre [] = Some failures"
  shows "authenticate h (Many (pre @ rest)) oa cb rq rs
         = attempt (config_of h (Many (pre @ rest)) oa cb) rest failures (start oa rq rs)"
proof -
  let ?c = "config_of h (Many (pre @ rest)) oa cb"
  let ?w = "start oa rq rs"
  have "failing (p_strategy ?c) (req ?w) (opts ?w) pre [] = Some failures"
    using assms by (simp add: config_of_def start_def)
  from attempt_failing [OF this, of rest] show ?thesis
    by (simp add: authenticate_def)
qed

lemma authenticate_plain_fail:
  assumes "failing (h_strategy h) rq options (chain_of name) [] = Some failures"
    and "\<not> truthy (failureFlash options)" and "\<not> truthy (failureMessage options)"
    and "\<not> truthy (failureRedirect options)"
  shows "authenticate h name (OptionsObject options) False rq rs
         = Done \<lparr> req = rq, res = rs\<lparr>statusCode := first_nonempty_status failures\<rparr>,
                  opts = options,
                  trace = challenge_header failures @ [final_event (failWithError options) failures] \<rparr>"
proof -
  let ?c = "config_of h name (OptionsObject options) False"
  let ?w = "start (OptionsObject options) rq rs"
  have "allFailed ?c failures ?w =
           Done (?w\<lparr>res := (res ?w)\<lparr>statusCode := first_nonempty_status failures\<rparr>,
                   trace := trace ?w @ challenge_header failures
                              @ [final_event (failWithError (opts ?w)) failures]\<rparr>)"
    using assms(2-4) by (intro allFailed_plain) (simp_all add: config_of_def start_def)
  then show ?thesis
    by (simp add: authenticate_failing [OF assms(1)] start_def)
qed

text \<open>
  C3 (as amended). The chain \<open>[A, B]\<close>, A calling \<open>fail({type: "x"}, 403)\<close> and B
  calling \<open>fail("bearer", 401)\<close>, dispatched without a callback and with no failure
  flash, message, redirect or \<open>failWithError\<close>: the response status is 403 and the
  body is its status text; the challenge list the handler builds holds the string
  \<open>"bearer"\<close> only; and, the status not being 401, the list is never written: ending the
  response is the only call made.
\<close>

theorem chain_403_no_challenge_header:
  assumes "a rq options = CallFail (JObj [(''type'', JStr ''x'')]) (JNum 403)"
    and "b rq options = CallFail (JStr ''bearer'') (JNum 401)"
    and "\<not> truthy (failureFlash options)" and "\<not> truthy (failureMessage options)"
    and "\<not> truthy (failureRedirect options)" and "\<not> truthy (failWithError options)"
  shows "authenticate h (Many [Instance a, Instance b]) (OptionsObject options) False rq rs
           = Done \<lparr> req = rq, res = rs\<lparr>statusCode := JNum 403\<rparr>, opts = options,
                    trace = [ResEnd (StatusText (JNum 403))] \<rparr>
         \<and> fst (collect [\<lparr>challenge = JObj [(''type'', JStr ''x'')], status = JNum 403\<rparr>,
                         \<lparr>challenge = JStr ''bearer'', status = JNum 401\<rparr>]) = [JStr ''bearer'']"
proof -
  let ?fs = "[\<lparr>challenge = JObj [(''type'', JStr ''x'')], status = JNum 403\<rparr>,
              \<lparr>challenge = JStr ''bearer'', status = JNum 401\<rparr>]"
  have f: "failing (h_strategy h) rq options (chain_of (Many [Instance a, Instance b])) [] = Some ?fs"
    using assms(1,2) by (simp add: resolve_def fail_def)
  have v: "first_nonempty_status ?fs = JNum 403" "challenge_header ?fs = []"
    "final_event (failWithError options) ?fs = ResEnd (StatusText (JNum 403))"
    using assms(6)
    by (simp_all add: first_nonempty_status_def challenge_header_def final_event_def)
  have c: "fst (collect ?fs) = [JStr ''bearer'']"
    by (simp add: collect_fst string_challenges_def)
  from authenticate_plain_fail [OF f assms(3-5), of rs] v c show ?thesis by simp
qed

theorem chain_403_no_challenge_header_witness:
  "fail_object plain_request no_options = CallFail (JObj [(''type'', JStr ''x'')]) (JNum 403)
   \<and> fail_bearer plain_request no_options = CallFail (JStr ''bearer'') (JNum 401)
   \<and> \<not> truthy (failureFlash no_options) \<and> \<not> truthy (failureMessage no_options)
   \<and> \<not> truthy (failureRedirect no_options) \<and> \<not> truthy (failWithError no_options)
   \<and> authenticate no_host (Many [Instance fail_object, Instance fail_bearer])
         (OptionsObject no_options) False plain_request fresh_response
       = Done \<lparr> req = plain_request, res = fresh_response\<lparr>statusCode := JNum 403\<rparr>,
                opts = no_options, trace = [ResEnd (StatusText (JNum 403))] \<rparr>"
proof -
  have a: "fail_object plain_request no_options = CallFail (JObj [(''type'', JStr ''x'')]) (JNum 403)"
    and b: "fail_bearer plain_request no_options = CallFail (JStr ''bearer'') (JNum 401)"
    by (simp_all add: fail_object_def fail_bearer_def)
  have o: "\<not> truthy (failureFlash no_options)" "\<not> truthy (failureMessage no_options)"
    "\<not> truthy (failureRedirect no_options)" "\<not> truthy (failWithError no_options)"
    by (simp_all add: no_options_def)
  from chain_403_no_challenge_header [where a = fail_object and b = fail_bearer
      and rq = plain_request and options = no_options and h = no_host and rs = fresh_response,
      OF a b o] a b o
  show ?thesis by (intro conjI) (elim conjE, assumption)+
qed

lemma fail_object_bearer_trace:
  "authenticate no_host (Many [Instance fail_object, Instance fail_bearer])
         (OptionsObject no_options) False plain_request fresh_response
       = Done \<lparr> req = plain_request, res = fresh_response\<lparr>statusCode := JNum 403\<rparr>,
                opts = no_options, trace = [ResEnd (StatusText (JNum 403))] \<rparr>"
proof -
  let ?fs = "[\<lparr>challenge = JObj [(''type'', JStr ''x'')], status = JNum 403\<rparr>,
              \<lparr>challenge = JStr ''bearer'', status = JNum 401\<rparr>]"
  have f: "failing (h_strategy no_host) plain_request no_options
             (chain_of (Many [Instance fail_object, Instance fail_bearer])) [] = Some ?fs"
    by (simp add: resolve_def fail_def fail_object_def fail_bearer_def)
  have o: "\<not> truthy (failureFlash no_options)" "\<not> truthy (failureMessage no_options)"
    "\<not> truthy (failureRedirect no_options)"
    by (simp_all add: no_options_def)
  have v: "first_nonempty_status ?fs = JNum 403" "challenge_header ?fs = []"
    "final_event (failWithError no_options) ?fs = ResEnd (StatusText (JNum 403))"
    by (simp_all add: first_nonempty_status_def challenge_header_def final_event_def no_options_def)
  from authenticate_plain_fail [OF f o, of fresh_response] v show ?thesis by simp
qed

text \<open>
  C3 as stated fails: on that chain no \<open>WWW-Authenticate\<close> header holding
  \<open>"bearer"\<close> is set on the response.
\<close>

theorem chain_403_header_counterexample:
  "SetHeader ''WWW-Authenticate'' (HList [JStr ''bearer''])
     \<notin> set (trace (world_of (authenticate no_host (Many [Instance fail_object, Instance fail_bearer])
                (OptionsObject no_options) False plain_request fresh_response)))"
  by (simp add: fail_object_bearer_trace)

subsection \<open>Names the registry does not know\<close>

text \<open>
  A chain whose earlier strategies all fail and which then holds a non-empty name the
  registry does not know (or that name given alone): the dispatch ends with
  \<open>next(new Error('Unknown authentication strategy ...'))\<close> and nothing else, whatever
  follows the name, with or without a callback. The request, the response and the options
  are as they were, so no failure procedure has run and no later strategy was asked.
\<close>

theorem unknown_strategy_aborts:
  assumes "failing (h_strategy h) rq (options_of oa) pre [] = Some failures"
    and "s \<noteq> []" and "h_strategy h s = None"
  shows "authenticate h (Many (pre @ Name s # post)) oa cb rq rs
           = Done \<lparr> req = rq, res = rs, opts = options_of oa, trace = [Next (UnknownStrategy s)] \<rparr>
       \<and> authenticate h (Single (Name s)) oa cb rq rs
           = Done \<lparr> req = rq, res = rs, opts = options_of oa, trace = [Next (UnknownStrategy s)] \<rparr>"
proof -
  have "authenticate h (Many (pre @ Name s # post)) oa cb rq rs
           = Done \<lparr> req = rq, res = rs, opts = options_of oa, trace = [Next (UnknownStrategy s)] \<rparr>"
    using assms(2,3)
    by (simp add: authenticate_failing_gen [OF assms(1)] resolve_def config_of_def start_def emit_def)
  moreover have "authenticate h (Single (Name s)) oa cb rq rs
           = Done \<lparr> req = rq, res = rs, opts = options_of oa, trace = [Next (UnknownStrategy s)] \<rparr>"
    using assms(2,3)
    by (simp add: authenticate_def resolve_def config_of_def start_def emit_def)
  ultimately show ?thesis by simp
qed

theorem unknown_strategy_aborts_witness:
  "failing (h_strategy no_host) plain_request (options_of OptionsMissing) [Instance fail_basic] []
     = Some [\<lparr>challenge = JStr ''basic'', status = JNum 401\<rparr>]
   \<and> ''ghost'' \<noteq> [] \<and> h_strategy no_host ''ghost'' = None
   \<and> authenticate no_host (Many ([Instance fail_basic] @ Name ''ghost'' # [Instance succeed_alice]))
         OptionsMissing False plain_request fresh_response
       = Done \<lparr> req = plain_request, res = fresh_response, opts = options_of OptionsMissing,
                trace = [Next (UnknownStrategy ''ghost'')] \<rparr>"
proof -
  have f: "failing (h_strategy no_host) plain_request (options_of OptionsMissing) [Instance fail_basic] []
     = Some [\<lparr>challenge = JStr ''basic'', status = JNum 401\<rparr>]"
    by (simp add: resolve_def fail_def fail_basic_def)
  have n: "''ghost'' \<noteq> []" "h_strategy no_host ''ghost'' = None"
    by (simp_all add: no_host_def)
  from unknown_strategy_aborts [OF f n, of "[Instance succeed_alice]" False fresh_response,
      THEN conjunct1] f n
  show ?thesis by (intro conjI)
qed

text \<open>
  C5 at the empty name. The registry does not know the name \<open>''\<close>, but \<open>attempt\<close>
  tests \<open>!layer\<close> first, the test meant for the end of the chain: the all-failed
  procedure runs although a strategy is left in the chain, and answers 401 where the
  unknown name should have been reported. Given alone, with a callback, the same entry
  makes the all-failed procedure throw, for want of a first failure record.
\<close>

theorem empty_name_runs_allFailed:
  "h_strategy no_host '''' = None
   \<and> authenticate no_host (Many [Name '''', Instance succeed_alice]) (OptionsObject no_options) False
         plain_request fresh_response
       = Done \<lparr> req = plain_request, res = fresh_response\<lparr>statusCode := JNum 401\<rparr>,
                opts = no_options, trace = [ResEnd (StatusText (JNum 401))] \<rparr>
   \<and> authenticate no_host (Single (Name '''')) (OptionsObject no_options) True
         plain_request fresh_response
       = Threw TypeError \<lparr> req = plain_request, res = fresh_response, opts = no_options,
                           trace = [] \<rparr>"
proof -
  have o: "\<not> has_callback (config_of no_host (Many [Name '''', Instance succeed_alice]) (OptionsObject no_options) False)"
    "\<not> truthy (failureFlash (opts (start (OptionsObject no_options) plain_request fresh_response)))"
    "\<not> truthy (failureMessage (opts (start (OptionsObject no_options) plain_request fresh_response)))"
    "\<not> truthy (failureRedirect (opts (start (OptionsObject no_options) plain_request fresh_response)))"
    by (simp_all add: no_options_def config_of_def start_def)
  have v: "first_nonempty_status [] = JNum 401" "challenge_header [] = []"
    by (simp_all add: first_nonempty_status_def challenge_header_def string_challenges_def)
  have "\<not> truthy (failWithError no_options)" by (simp add: no_options_def)
  then have v': "final_event (failWithError no_options) [] = ResEnd (StatusText (JNum 401))"
    by (simp add: final_event_def v)
  have 1: "authenticate no_host (Many [Name '''', Instance succeed_alice]) (OptionsObject no_options) False
         plain_request fresh_response
       = Done \<lparr> req = plain_request, res = fresh_response\<lparr>statusCode := JNum 401\<rparr>,
                opts = no_options, trace = [ResEnd (StatusText (JNum 401))] \<rparr>"
    by (simp add: authenticate_def resolve_def allFailed_plain [OF o] v)
       (simp add: start_def v')
  have 2: "authenticate no_host (Single (Name '''')) (OptionsObject no_options) True
         plain_request fresh_response
       = Threw TypeError \<lparr> req = plain_request, res = fresh_response, opts = no_options,
                           trace = [] \<rparr>"
    by (simp add: authenticate_def resolve_def allFailed_def config_of_def start_def
                  Let_def)
  have 0: "h_strategy no_host '''' = None" by (simp add: no_host_def)
  from 0 1 2 show ?thesis by (intro conjI)
qed

subsection \<open>The chain of no strategies\<close>

lemma collect_bare: "collect [\<lparr>challenge = JUndefined, status = JUndefined\<rparr>] = collect []"
  by (simp add: collect_def js_or_def)

lemma allFailed_bare:
  "\<not> has_callback c \<Longrightarrow>
   allFailed c [\<lparr>challenge = JUndefined, status = JUndefined\<rparr>] w = allFailed c [] w"
  unfolding allFailed_def respond_def collect_bare by (simp add: js_or_def)

lemma allFailed_multi:
  "\<not> has_callback c \<Longrightarrow> \<not> has_callback c' \<Longrightarrow> allFailed c failures w = allFailed c' failures w"
  by (simp add: allFailed_def)

text \<open>
  C6 (as amended). Without a callback, for every request, response, registry and options,
  the chain of no strategies resolves exactly as the chain (an array of one, or a single
  layer) whose sole strategy calls \<open>fail\<close> with no challenge and no status: both are the
  all-failed procedure on no failure record. With no failure flash, message or redirect
  configured, the response status is 401.
\<close>

theorem empty_chain_as_sole_failure:
  assumes "resolve (h_strategy h) layer = Strategy strategy"
    and "strategy rq options = CallFail JUndefined JUndefined"
  shows "authenticate h (Many [layer]) (OptionsObject options) False rq rs
           = authenticate h (Many []) (OptionsObject options) False rq rs
       \<and> authenticate h (Single layer) (OptionsObject options) False rq rs
           = authenticate h (Many []) (OptionsObject options) False rq rs
       \<and> authenticate h (Many []) (OptionsObject options) False rq rs
           = allFailed (config_of h (Many []) (OptionsObject options) False) []
               (start (OptionsObject options) rq rs)
       \<and> (\<not> truthy (failureFlash options) \<and> \<not> truthy (failureMessage options)
            \<and> \<not> truthy (failureRedirect options)
          \<longrightarrow> statusCode (res (world_of (authenticate h (Many []) (OptionsObject options) False rq rs)))
                = JNum 401)"
proof -
  let ?w = "start (OptionsObject options) rq rs"
  let ?c = "config_of h (Many []) (OptionsObject options) False"
  have nc: "\<not> has_callback ?c" "\<not> has_callback (config_of h (Many [layer]) (OptionsObject options) False)"
    "\<not> has_callback (config_of h (Single layer) (OptionsObject options) False)"
    by (simp_all add: config_of_def)
  have e: "authenticate h (Many []) (OptionsObject options) False rq rs = allFailed ?c [] ?w"
    by (simp add: authenticate_def)
  have r: "resolve (p_strategy c) layer = Strategy strategy \<and> strategy (req ?w) (opts ?w) = CallFail JUndefined JUndefined"
    if "p_strategy c = h_strategy h" for c
    using assms that by (simp add: start_def)
  have step: "attempt c [layer] [] ?w = allFailed ?c [] ?w"
    if c: "p_strategy c = h_strategy h" "\<not> has_callback c" for c
  proof -
    have "attempt c [layer] [] ?w = allFailed c [\<lparr>challenge = JUndefined, status = JUndefined\<rparr>] ?w"
      using r [OF c(1)] by (simp add: fail_def)
    also have "\<dots> = allFailed c [] ?w" by (rule allFailed_bare [OF c(2)])
    also have "\<dots> = allFailed ?c [] ?w" by (rule allFailed_multi [OF c(2) nc(1)])
    finally show ?thesis .
  qed
  have m: "authenticate h (Many [layer]) (OptionsObject options) False rq rs = allFailed ?c [] ?w"
    unfolding authenticate_def chain_of.simps
    by (rule step) (simp_all add: config_of_def)
  have s: "authenticate h (Single layer) (OptionsObject options) False rq rs = allFailed ?c [] ?w"
    unfolding authenticate_def chain_of.simps
    by (rule step) (simp_all add: config_of_def)
  have st: "statusCode (res (world_of (authenticate h (Many []) (OptionsObject options) False rq rs))) = JNum 401"
    if "\<not> truthy (failureFlash options)" "\<not> truthy (failureMessage options)"
       "\<not> truthy (failureRedirect options)"
  proof -
    have "failing (h_strategy h) rq options (chain_of (Many [])) [] = Some []" by simp
    from authenticate_plain_fail [OF this that, of rs] show ?thesis
      by (simp add: first_nonempty_status_def)
  qed
  from e m s st show ?thesis by simp
qed

theorem empty_chain_as_sole_failure_witness:
  "resolve (h_strategy no_host) (Instance fail_bare) = Strategy fail_bare
   \<and> fail_bare plain_request no_options = CallFail JUndefined JUndefined
   \<and> authenticate no_host (Many [Instance fail_bare]) (OptionsObject no_options) False plain_request fresh_response
       = authenticate no_host (Many []) (OptionsObject no_options) False plain_request fresh_response
   \<and> \<not> truthy (failureFlash no_options) \<and> \<not> truthy (failureMessage no_options)
   \<and> \<not> truthy (failureRedirect no_options)
   \<and> statusCode (res (world_of (authenticate no_host (Many []) (OptionsObject no_options) False
         plain_request fresh_response))) = JNum 401"
proof -
  have a: "resolve (h_strategy no_host) (Instance fail_bare) = Strategy fail_bare"
    and b: "fail_bare plain_request no_options = CallFail JUndefined JUndefined"
    by (simp_all add: resolve_def fail_bare_def)
  have o: "\<not> truthy (failureFlash no_options)" "\<not> truthy (failureMessage no_options)"
    "\<not> truthy (failureRedirect no_options)"
    by (simp_all add: no_options_def)
  note t = empty_chain_as_sole_failure [OF a b, of fresh_response]
  have 1: "authenticate no_host (Many [Instance fail_bare]) (OptionsObject no_options) False plain_request fresh_response
       = authenticate no_host (Many []) (OptionsObject no_options) False plain_request fresh_response"
    by (rule t [THEN conjunct1])
  have 2: "statusCode (res (world_of (authenticate no_host (Many []) (OptionsObject no_options) False
         plain_request fresh_response))) = JNum 401"
    using t [THEN conjunct2, THEN conjunct2, THEN conjunct2] o by (elim impE) (intro conjI)
  from a b 1 o 2 show ?thesis by (intro conjI)
qed

text \<open>
  C6 as stated fails with a callback: the empty chain hands the callback two empty arrays,
  the chain of one failing strategy two arrays of one undefined entry each.
\<close>

theorem empty_chain_callback_counterexample:
  "authenticate no_host (Many []) (OptionsObject no_options) True plain_request fresh_response
     = Done \<lparr> req = plain_request, res = fresh_response, opts = no_options,
              trace = [Callback (CbFailures [] [])] \<rparr>
   \<and> authenticate no_host (Many [Instance fail_bare]) (OptionsObject no_options) True plain_request fresh_response
     = Done \<lparr> req = plain_request, res = fresh_response, opts = no_options,
              trace = [Callback (CbFailures [JUndefined] [JUndefined])] \<rparr>"
  by (simp add: authenticate_def config_of_def start_def resolve_def fail_bare_def fail_def
      allFailed_def emit_def)

subsection \<open>The numeric first argument of fail\<close>

lemma attempt_prefix_cong:
  assumes "\<And>fs. attempt c xs fs w = attempt c ys fs w"
  shows "attempt c (pre @ xs) failures w = attempt c (pre @ ys) failures w"
proof (induction pre arbitrary: failures)
  case Nil
  show ?case by (simp add: assms)
next
  case (Cons layer pre)
  then show ?case by (simp split: resolution.splits action.splits)
qed

text \<open>
  C4. \<open>fail(n)\<close> with a number \<open>n\<close> and \<open>fail(undefined, n)\<close> push the same failure
  record, absent challenge and status \<open>n\<close>, and go on with the next strategy: two chains
  that differ in one strategy only, calling the one in the first and the other in the
  second, dispatch to the same outcome, whatever the options and the callback. The record
  reaches the end of the dispatch: when the strategy is the last of a failing chain, the
  callback is handed undefined and \<open>n\<close> in the last place of its arrays (as its two
  values, for a single strategy). And the next strategy is attempted: when it calls
  \<open>pass\<close>, the dispatch ends with \<open>next()\<close> and nothing else.
\<close>

theorem fail_numeric_first_argument:
  assumes "a rq (options_of oa) = CallFail (JNum n) JUndefined"
    and "b rq (options_of oa) = CallFail JUndefined (JNum n)"
  shows "fail (JNum n) JUndefined failures = failures @ [\<lparr>challenge = JUndefined, status = JNum n\<rparr>]
       \<and> fail JUndefined (JNum n) failures = failures @ [\<lparr>challenge = JUndefined, status = JNum n\<rparr>]
       \<and> authenticate h (Many (pre @ Instance a # post)) oa cb rq rs
           = authenticate h (Many (pre @ Instance b # post)) oa cb rq rs
       \<and> authenticate h (Single (Instance a)) oa cb rq rs
           = authenticate h (Single (Instance b)) oa cb rq rs
       \<and> attempt c (Instance a # post) failures (start oa rq rs)
           = attempt c post (failures @ [\<lparr>challenge = JUndefined, status = JNum n\<rparr>]) (start oa rq rs)
       \<and> (failing (h_strategy h) rq (options_of oa) pre [] = Some before \<longrightarrow>
            authenticate h (Many (pre @ [Instance a])) oa True rq rs
              = Done \<lparr> req = rq, res = rs, opts = options_of oa,
                       trace = [Callback (CbFailures (map challenge before @ [JUndefined])
                                                     (map status before @ [JNum n]))] \<rparr>
          \<and> authenticate h (Many (pre @ [Instance b])) oa True rq rs
              = Done \<lparr> req = rq, res = rs, opts = options_of oa,
                       trace = [Callback (CbFailures (map challenge before @ [JUndefined])
                                                     (map status before @ [JNum n]))] \<rparr>)
       \<and> authenticate h (Single (Instance a)) oa True rq rs
           = Done \<lparr> req = rq, res = rs, opts = options_of oa,
                    trace = [Callback (CbFailure JUndefined (JNum n))] \<rparr>
       \<and> authenticate h (Single (Instance b)) oa True rq rs
           = Done \<lparr> req = rq, res = rs, opts = options_of oa,
                    trace = [Callback (CbFailure JUndefined (JNum n))] \<rparr>
       \<and> (failing (h_strategy h) rq (options_of oa) pre [] = Some before
            \<and> follower rq (options_of oa) = CallPass \<longrightarrow>
            authenticate h (Many (pre @ Instance a # Instance follower # post)) oa cb rq rs
              = Done \<lparr> req = rq, res = rs, opts = options_of oa, trace = [Next NoError] \<rparr>
          \<and> authenticate h (Many (pre @ Instance b # Instance follower # post)) oa cb rq rs
              = Done \<lparr> req = rq, res = rs, opts = options_of oa, trace = [Next NoError] \<rparr>)"
proof -
  let ?w = "start oa rq rs"
  have ab: "a (req ?w) (opts ?w) = CallFail (JNum n) JUndefined"
    "b (req ?w) (opts ?w) = CallFail JUndefined (JNum n)"
    using assms by (simp_all add: start_def)
  have f: "fail (JNum n) JUndefined fs = fs @ [\<lparr>challenge = JUndefined, status = JNum n\<rparr>]"
    "fail JUndefined (JNum n) fs = fs @ [\<lparr>challenge = JUndefined, status = JNum n\<rparr>]" for fs
    by (simp_all add: fail_def)
  have one: "attempt c (Instance a # post) fs ?w = attempt c (Instance b # post) fs ?w" for c fs post
    using ab by (simp add: resolve_def f)
  have many: "attempt c (pre @ Instance a # post) [] ?w = attempt c (pre @ Instance b # post) [] ?w" for c
    by (rule attempt_prefix_cong) (rule one)
  have cfg: "config_of h (Many (pre @ Instance a # post)) oa cb = config_of h (Many (pre @ Instance b # post)) oa cb"
    "config_of h (Single (Instance a)) oa cb = config_of h (Single (Instance b)) oa cb"
    by (simp_all add: config_of_def)
  have 1: "authenticate h (Many (pre @ Instance a # post)) oa cb rq rs
           = authenticate h (Many (pre @ Instance b # post)) oa cb rq rs"
    unfolding authenticate_def cfg chain_of.simps by (rule many)
  have 2: "authenticate h (Single (Instance a)) oa cb rq rs
           = authenticate h (Single (Instance b)) oa cb rq rs"
    unfolding authenticate_def cfg chain_of.simps by (rule one)
  have 3: "attempt c (Instance a # post) failures ?w
           = attempt c post (failures @ [\<lparr>challenge = JUndefined, status = JNum n\<rparr>]) ?w"
    using ab by (simp add: resolve_def f)
  have last: "authenticate h (Many (pre @ [Instance x])) oa True rq rs
              = Done \<lparr> req = rq, res = rs, opts = options_of oa,
                       trace = [Callback (CbFailures (map challenge before @ [JUndefined])
                                                     (map status before @ [JNum n]))] \<rparr>"
    if "failing (h_strategy h) rq (options_of oa) pre [] = Some before"
      and "x (req ?w) (opts ?w) = CallFail (JNum n) JUndefined
           \<or> x (req ?w) (opts ?w) = CallFail JUndefined (JNum n)" for x
    using that(2)
    by (auto simp: authenticate_failing_gen [OF that(1)] resolve_def f allFailed_def config_of_def
        emit_def) (simp_all add: start_def)
  have sole: "authenticate h (Single (Instance x)) oa True rq rs
           = Done \<lparr> req = rq, res = rs, opts = options_of oa,
                    trace = [Callback (CbFailure JUndefined (JNum n))] \<rparr>"
    if "x (req ?w) (opts ?w) = CallFail (JNum n) JUndefined
        \<or> x (req ?w) (opts ?w) = CallFail JUndefined (JNum n)" for x
    using that
    by (auto simp: authenticate_def resolve_def f allFailed_def config_of_def emit_def)
       (simp_all add: start_def)
  have onward: "authenticate h (Many (pre @ Instance x # Instance follower # post)) oa cb rq rs
              = Done \<lparr> req = rq, res = rs, opts = options_of oa, trace = [Next NoError] \<rparr>"
    if "failing (h_strategy h) rq (options_of oa) pre [] = Some before"
      and "follower rq (options_of oa) = CallPass"
      and "x (req ?w) (opts ?w) = CallFail (JNum n) JUndefined
           \<or> x (req ?w) (opts ?w) = CallFail JUndefined (JNum n)" for x
  proof -
    have "follower (req ?w) (opts ?w) = CallPass" using that(2) by (simp add: start_def)
    then show ?thesis using that(3)
      by (auto simp: authenticate_failing_gen [OF that(1)] resolve_def emit_def)
         (simp_all add: start_def)
  qed
  from f 1 2 3 last [of a] last [of b] sole [of a] sole [of b] onward [of a] onward [of b] ab
  show ?thesis by simp
qed

theorem fail_numeric_first_argument_witness:
  "fail_number plain_request (options_of OptionsMissing) = CallFail (JNum 401) JUndefined
   \<and> fail_status plain_request (options_of OptionsMissing) = CallFail JUndefined (JNum 401)
   \<and> failing (h_strategy no_host) plain_request (options_of OptionsMissing) [Instance fail_basic] []
       = Some [\<lparr>challenge = JStr ''basic'', status = JNum 401\<rparr>]
   \<and> pass_on plain_request (options_of OptionsMissing) = CallPass
   \<and> authenticate no_host (Many ([Instance fail_basic] @ [Instance fail_number]))
         OptionsMissing True plain_request fresh_response
       = Done \<lparr> req = plain_request, res = fresh_response, opts = options_of OptionsMissing,
                trace = [Callback (CbFailures [JStr ''basic'', JUndefined] [JNum 401, JNum 401])] \<rparr>
   \<and> authenticate no_host (Many ([Instance fail_basic] @ Instance fail_number # Instance pass_on
           # [Instance succeed_alice]))
         OptionsMissing False plain_request fresh_response
       = Done \<lparr> req = plain_request, res = fresh_response, opts = options_of OptionsMissing,
                trace = [Next NoError] \<rparr>"
proof -
  have a: "fail_number plain_request (options_of OptionsMissing) = CallFail (JNum 401) JUndefined"
    and b: "fail_status plain_request (options_of OptionsMissing) = CallFail JUndefined (JNum 401)"
    by (simp_all add: fail_number_def fail_status_def)
  have f: "failing (h_strategy no_host) plain_request (options_of OptionsMissing) [Instance fail_basic] []
       = Some [\<lparr>challenge = JStr ''basic'', status = JNum 401\<rparr>]"
    by (simp add: resolve_def fail_def fail_basic_def)
  have p: "pass_on plain_request (options_of OptionsMissing) = CallPass"
    by (simp add: pass_on_def)
  note t = fail_numeric_first_argument [where a = fail_number and b = fail_status
      and rq = plain_request and oa = OptionsMissing and n = 401, OF a b,
      where h = no_host and pre = "[Instance fail_basic]" and rs = fresh_response
      and before = "[\<lparr>challenge = JStr ''basic'', status = JNum 401\<rparr>]"
      and follower = pass_on and post = "[Instance succeed_alice]" and cb = False]
  note t5 = t [THEN conjunct2, THEN conjunct2, THEN conjunct2, THEN conjunct2, THEN conjunct2]
  have 1: "authenticate no_host (Many ([Instance fail_basic] @ [Instance fail_number]))
         OptionsMissing True plain_request fresh_response
       = Done \<lparr> req = plain_request, res = fresh_response, opts = options_of OptionsMissing,
                trace = [Callback (CbFailures (map challenge [\<lparr>challenge = JStr ''basic'', status = JNum 401\<rparr>] @ [JUndefined])
                                              (map status [\<lparr>challenge = JStr ''basic'', status = JNum 401\<rparr>] @ [JNum 401]))] \<rparr>"
    by (rule t5 [THEN conjunct1, rule_format, OF f, THEN conjunct1])
  have 2: "authenticate no_host (Many ([Instance fail_basic] @ Instance fail_number # Instance pass_on
           # [Instance succeed_alice]))
         OptionsMissing False plain_request fresh_response
       = Done \<lparr> req = plain_request, res = fresh_response, opts = options_of OptionsMissing,
                trace = [Next NoError] \<rparr>"
    by (rule t5 [THEN conjunct2, THEN conjunct2, THEN conjunct2, rule_format, OF conjI, OF f p,
          THEN conjunct1])
  from 1 have c1: "authenticate no_host (Many ([Instance fail_basic] @ [Instance fail_number]))
         OptionsMissing True plain_request fresh_response
       = Done \<lparr> req = plain_request, res = fresh_response, opts = options_of OptionsMissing,
                trace = [Callback (CbFailures [JStr ''basic'', JUndefined] [JNum 401, JNum 401])] \<rparr>"
    by simp
  from a b f p c1 2 show ?thesis by (intro conjI)
qed

subsection \<open>The success procedure\<close>

lemma redirect_target_successFlash [simp]:
  "redirect_target (options\<lparr>successFlash := sf\<rparr>) r = redirect_target options r"
  by (simp add: redirect_target_def split: option.splits)

lemma redirect_target_authInfo [simp]:
  "redirect_target options (r\<lparr>req_authInfo := t\<rparr>) = redirect_target options r"
  by (simp add: redirect_target_def pending_returnTo_def)

lemma saves_authInfo [simp]: "saves (r\<lparr>req_authInfo := t\<rparr>) = saves r"
  by (simp add: saves_def)

lemma completion_calls_authInfo [simp]:
  "completion_calls options (r\<lparr>req_authInfo := t\<rparr>) = completion_calls options r"
  by (simp add: completion_calls_def split: option.splits)

lemma flash_success_world:
  "\<exists>sf evs. world_of (flash_success src w)
               = w\<lparr>opts := (opts w)\<lparr>successFlash := sf\<rparr>, trace := trace w @ evs\<rparr>
     \<and> (sf = successFlash (opts w) \<or> sf = defaulted ''success'' (successFlash (opts w)))
     \<and> (evs = [] \<or> (\<exists>t m. evs = [Flash t m]))"
proof (cases "truthy (successFlash (opts w))")
  case False
  then have "world_of (flash_success src w)
               = w\<lparr>opts := (opts w)\<lparr>successFlash := successFlash (opts w)\<rparr>, trace := trace w @ []\<rparr>"
    by (simp add: flash_success_def)
  then show ?thesis by blast
next
  case True
  from flash_block_result [OF True, of "''success''" src]
  consider (thrown) "flash_block ''success'' (successFlash (opts w)) src = Inl TypeError"
    | (normal) flash calls where
        "flash_block ''success'' (successFlash (opts w)) src = Inr (flash, calls)"
        "is_string (successFlash (opts w)) \<or> flash = defaulted ''success'' (successFlash (opts w))"
        "calls = [] \<or> (\<exists>t m. calls = [Flash t m])"
    by blast
  then show ?thesis
  proof cases
    case thrown
    with True have "world_of (flash_success src w)
               = w\<lparr>opts := (opts w)\<lparr>successFlash := successFlash (opts w)\<rparr>, trace := trace w @ []\<rparr>"
      by (simp add: flash_success_def)
    then show ?thesis by blast
  next
    case normal
    note b = normal(1) and f = normal(2) and c = normal(3)
    define sf where "sf = (if is_string (successFlash (opts w)) then successFlash (opts w) else flash)"
    define evs where "evs = (if flash_fn (req w) then calls else [])"
    have "world_of (flash_success src w)
               = w\<lparr>opts := (opts w)\<lparr>successFlash := sf\<rparr>, trace := trace w @ evs\<rparr>"
      using True b by (simp add: flash_success_def sf_def evs_def Let_def)
    moreover have "sf = successFlash (opts w) \<or> sf = defaulted ''success'' (successFlash (opts w))"
      using f by (auto simp: sf_def)
    moreover have "evs = [] \<or> (\<exists>t m. evs = [Flash t m])"
      using c by (auto simp: evs_def)
    ultimately show ?thesis by blast
  qed
qed

lemma message_success_world: "\<exists>r. world_of (message_success src w) = w\<lparr>req := r\<rparr>"
proof (cases "message_success src w = Done w \<or> message_success src w = Threw TypeError w")
  case True
  then have "world_of (message_success src w) = w\<lparr>req := req w\<rparr>" by auto
  then show ?thesis by blast
next
  case False
  then show ?thesis
    by (auto simp: message_success_def push_message_def split: if_splits option.splits)
qed

lemma redirect_eq: "redirect u w = w\<lparr>trace := trace w @ saves (req w) @ [ResRedirect u]\<rparr>"
  by (simp add: redirect_def saves_def emit_def split: option.splits)

lemma complete_eq:
  "complete w = w\<lparr>req := completed_request (opts w) (req w),
                   trace := trace w @ completion_calls (opts w) (req w)\<rparr>"
proof (cases "truthy (successReturnToOrRedirect (opts w))")
  case False
  then show ?thesis
    by (simp add: complete_def redirect_eq completed_request_def completion_calls_def
        redirect_target_def emit_def)
next
  case True
  show ?thesis
  proof (cases "pending_returnTo (req w)")
    case None
    then show ?thesis using True
      by (auto simp: complete_def redirect_eq completed_request_def completion_calls_def
          redirect_target_def pending_returnTo_def split: option.splits if_splits)
  next
    case (Some v)
    then obtain s where s: "req_session (req w) = Some s" "returnTo s = Some v" "truthy v"
      by (auto simp: pending_returnTo_def split: option.splits if_splits)
    have "saves ((req w)\<lparr>req_session := Some (s\<lparr>returnTo := None\<rparr>)\<rparr>) = saves (req w)"
      using s by (simp add: saves_def)
    then show ?thesis using True Some s
      by (simp add: complete_def redirect_eq completed_request_def completion_calls_def
          redirect_target_def)
  qed
qed

lemma completion_calls_event:
  "list_all (success_event (redirect_target options r)) (completion_calls options r)"
  by (simp add: completion_calls_def saves_def success_event_def split: option.splits)

lemma after_logIn_world:
  "\<exists>r evs. after_logIn c info err w = w\<lparr>req := r, trace := trace w @ evs\<rparr>
     \<and> list_all (success_event (redirect_target (opts w) (req w))) evs"
proof -
  have err_case: "\<exists>r evs. emit (Next (Err x)) w = w\<lparr>req := r, trace := trace w @ evs\<rparr>
     \<and> list_all (success_event (redirect_target (opts w) (req w))) evs" for x
  proof -
    have "emit (Next (Err x)) w = w\<lparr>req := req w, trace := trace w @ [Next (Err x)]\<rparr>"
      by (simp add: emit_def)
    moreover have "list_all (success_event (redirect_target (opts w) (req w))) [Next (Err x)]"
      by (simp add: success_event_def)
    ultimately show ?thesis by blast
  qed
  have complete_case: "\<exists>r evs. complete (w\<lparr>req := (req w)\<lparr>req_authInfo := t\<rparr>\<rparr>)
       = w\<lparr>req := r, trace := trace w @ evs\<rparr>
     \<and> list_all (success_event (redirect_target (opts w) (req w))) evs" for t
  proof -
    have "complete (w\<lparr>req := (req w)\<lparr>req_authInfo := t\<rparr>\<rparr>)
        = w\<lparr>req := completed_request (opts w) ((req w)\<lparr>req_authInfo := t\<rparr>),
             trace := trace w @ completion_calls (opts w) (req w)\<rparr>"
      by (simp add: complete_eq)
    moreover note completion_calls_event [of "opts w" "req w"]
    ultimately show ?thesis by blast
  qed
  have plain_case: "\<exists>r evs. complete w = w\<lparr>req := r, trace := trace w @ evs\<rparr>
     \<and> list_all (success_event (redirect_target (opts w) (req w))) evs"
    using complete_eq [of w] completion_calls_event [of "opts w" "req w"] by blast
  show ?thesis
    using err_case complete_case plain_case
    by (simp add: after_logIn_def split: prod.splits)
qed

lemma proceed_world:
  "\<exists>r evs. proceed c user info w = w\<lparr>req := r, trace := trace w @ evs\<rparr>
     \<and> list_all (success_event
                    (redirect_target (opts w) (snd (req_logIn c user (opts w) (req w))))) evs"
proof (cases "truthy (assignProperty (opts w))")
  case True
  define r where "r = assign_property (assignProperty (opts w)) user (req w)"
  have "proceed c user info w = w\<lparr>req := r, trace := trace w @ [Next NoError]\<rparr>"
    using True by (simp add: proceed_def emit_def r_def)
  moreover have "list_all (success_event
                    (redirect_target (opts w) (snd (req_logIn c user (opts w) (req w))))) [Next NoError]"
    by (simp add: success_event_def)
  ultimately show ?thesis by blast
next
  case False
  obtain err r0 where l: "req_logIn c user (opts w) (req w) = (err, r0)"
    by (cases "req_logIn c user (opts w) (req w)")
  from after_logIn_world [of c info err "w\<lparr>req := r0\<rparr>"] obtain r evs where
    "after_logIn c info err (w\<lparr>req := r0\<rparr>)
       = w\<lparr>req := r0\<rparr>\<lparr>req := r, trace := trace (w\<lparr>req := r0\<rparr>) @ evs\<rparr>"
    "list_all (success_event (redirect_target (opts (w\<lparr>req := r0\<rparr>)) (req (w\<lparr>req := r0\<rparr>)))) evs"
    by blast
  then have "proceed c user info w = w\<lparr>req := r, trace := trace w @ evs\<rparr>"
    "list_all (success_event
                 (redirect_target (opts w) (snd (req_logIn c user (opts w) (req w))))) evs"
    using False l by (simp_all add: proceed_def)
  then show ?thesis by blast
qed

lemma success_world:
  assumes "\<not> has_callback c"
  shows "\<exists>r sf evs os q. world_of (success c user info w)
           = w\<lparr>req := r, opts := (opts w)\<lparr>successFlash := sf\<rparr>, trace := trace w @ evs\<rparr>
         \<and> (sf = successFlash (opts w) \<or> sf = defaulted ''success'' (successFlash (opts w)))
         \<and> list_all (success_event (redirect_target (opts w) (snd (req_logIn c user os q)))) evs"
proof -
  let ?info = "js_or info (JObj [])"
  define w1 where "w1 = world_of (flash_success ?info w)"
  define w2 where "w2 = world_of (message_success ?info w1)"
  let ?t = "redirect_target (opts w) (snd (req_logIn c user (opts w2) (req w2)))"
  obtain sf evs1 where w1: "w1 = w\<lparr>opts := (opts w)\<lparr>successFlash := sf\<rparr>, trace := trace w @ evs1\<rparr>"
    and sf: "sf = successFlash (opts w) \<or> sf = defaulted ''success'' (successFlash (opts w))"
    and evs1: "evs1 = [] \<or> (\<exists>t m. evs1 = [Flash t m])"
    using flash_success_world [of ?info w] unfolding w1_def by blast
  obtain r2 where w2: "w2 = w1\<lparr>req := r2\<rparr>"
    using message_success_world [of ?info w1] unfolding w2_def by blast
  obtain r3 evs3 where w3: "proceed c user ?info w2 = w2\<lparr>req := r3, trace := trace w2 @ evs3\<rparr>"
    and evs3: "list_all (success_event
                 (redirect_target (opts w2) (snd (req_logIn c user (opts w2) (req w2))))) evs3"
    using proceed_world [of c user ?info w2] by blast
  have l1: "list_all (success_event ?t) evs1"
    using evs1 by (auto simp: success_event_def)
  have "opts w2 = (opts w)\<lparr>successFlash := sf\<rparr>" by (simp add: w2 w1)
  then have l3: "list_all (success_event ?t) evs3"
    using evs3 by simp
  have shape: "\<exists>r evs. w' = w\<lparr>req := r, opts := (opts w)\<lparr>successFlash := sf\<rparr>, trace := trace w @ evs\<rparr>
                 \<and> list_all (success_event ?t) evs"
    if "w' = w1 \<or> w' = w2 \<or> w' = proceed c user ?info w2" for w'
  proof -
    have a: "w1 = w\<lparr>req := req w, opts := (opts w)\<lparr>successFlash := sf\<rparr>, trace := trace w @ evs1\<rparr>"
      by (simp add: w1)
    have b: "w2 = w\<lparr>req := r2, opts := (opts w)\<lparr>successFlash := sf\<rparr>, trace := trace w @ evs1\<rparr>"
      by (simp add: w2 w1)
    have c: "proceed c user ?info w2
               = w\<lparr>req := r3, opts := (opts w)\<lparr>successFlash := sf\<rparr>, trace := trace w @ (evs1 @ evs3)\<rparr>"
      by (simp only: w3) (simp add: w2 w1)
    have l13: "list_all (success_event ?t) (evs1 @ evs3)"
      using l1 l3 by simp
    from that a b c l1 l13 show ?thesis by metis
  qed
  have "world_of (success c user info w) = w1 \<or> world_of (success c user info w) = w2
        \<or> world_of (success c user info w) = proceed c user ?info w2"
  proof (cases "flash_success ?info w")
    case (Threw x u)
    then show ?thesis using assms by (simp add: success_def w1_def)
  next
    case (Done u)
    then have u: "u = w1" by (simp add: w1_def)
    show ?thesis
    proof (cases "message_success ?info w1")
      case (Threw x v)
      then show ?thesis using assms Done u by (simp add: success_def w2_def)
    next
      case d2: (Done v)
      then have "v = w2" by (simp add: w2_def)
      then show ?thesis using assms Done u d2 by (simp add: success_def)
    qed
  qed
  from shape [OF this] sf show ?thesis by blast
qed





subsection \<open>The return-to redirect\<close>

lemma success_logged_in:
  assumes "\<not> has_callback c"
    and "\<not> truthy (successFlash (opts w))" and "\<not> truthy (successMessage (opts w))"
    and "\<not> truthy (assignProperty (opts w))"
    and "\<not> truthy (fst (req_logIn c user (opts w) (req w)))"
    and "authInfo (opts w) = JBool False
         \<or> \<not> truthy (fst (p_transformAuthInfo c (js_or info (JObj []))
                             (snd (req_logIn c user (opts w) (req w)))))"
  shows "\<exists>a. success c user info w
              = Done (complete (w\<lparr>req := (snd (req_logIn c user (opts w) (req w)))\<lparr>req_authInfo := a\<rparr>\<rparr>))"
proof -
  let ?r = "snd (req_logIn c user (opts w) (req w))"
  have s: "success c user info w
             = Done (after_logIn c (js_or info (JObj [])) (fst (req_logIn c user (opts w) (req w)))
                       (w\<lparr>req := ?r\<rparr>))"
    using assms(1-4)
    by (simp add: success_def flash_success_def message_success_def proceed_def split_beta)
  have same: "w\<lparr>req := ?r\<lparr>req_authInfo := req_authInfo ?r\<rparr>\<rparr> = w\<lparr>req := ?r\<rparr>" by simp
  have "\<exists>a. after_logIn c (js_or info (JObj [])) (fst (req_logIn c user (opts w) (req w))) (w\<lparr>req := ?r\<rparr>)
          = complete (w\<lparr>req := ?r\<lparr>req_authInfo := a\<rparr>\<rparr>)"
  proof (cases "authInfo (opts w) = JBool False")
    case True
    then have "after_logIn c (js_or info (JObj [])) (fst (req_logIn c user (opts w) (req w))) (w\<lparr>req := ?r\<rparr>)
          = complete (w\<lparr>req := ?r\<lparr>req_authInfo := req_authInfo ?r\<rparr>\<rparr>)"
      using assms(5) unfolding same by (simp add: after_logIn_def)
    then show ?thesis by blast
  next
    case False
    with assms(6) have "\<not> truthy (fst (p_transformAuthInfo c (js_or info (JObj [])) ?r))" by simp
    with False show ?thesis
      using assms(5) by (auto simp: after_logIn_def split_beta)
  qed
  with s show ?thesis by auto
qed

lemma complete_return_to:
  assumes "truthy (successReturnToOrRedirect (opts w))"
    and "req_session (req w) = Some s" and "returnTo s = Some url" and "truthy url"
  shows "complete w = w\<lparr>req := (req w)\<lparr>req_session := Some (s\<lparr>returnTo := None\<rparr>)\<rparr>,
                        trace := trace w @ (if save_fn s then [SessionSave] else []) @ [ResRedirect url]\<rparr>"
  using assms by (simp add: complete_def redirect_def emit_def)

lemma complete_fallback:
  assumes "truthy (successReturnToOrRedirect (opts w))"
    and "req_session (req w) = Some s" and "returnTo s = None"
  shows "complete w = w\<lparr>trace := trace w @ (if save_fn s then [SessionSave] else [])
                                   @ [ResRedirect (successReturnToOrRedirect (opts w))]\<rparr>"
  using assms by (simp add: complete_def redirect_def emit_def)

lemma authenticate_single_success:
  assumes "strategy rq (options_of oa) = CallSuccess user info"
  shows "authenticate h (Single (Instance strategy)) oa cb rq rs
         = success (config_of h (Single (Instance strategy)) oa cb) user info (start oa rq rs)"
  using assms by (simp add: authenticate_def resolve_def start_def)

text \<open>
  C7 (as amended). A successful authentication without a callback, with
  \<open>successReturnToOrRedirect\<close> configured (no success flash or message, no
  \<open>assignProperty\<close>), a login that succeeds on a request with a session and leaves the
  session's \<open>returnTo\<close> and \<open>save\<close> as they are, and an info transformation that
  succeeds unless \<open>authInfo\<close> is false. When the session holds a truthy \<open>returnTo\<close>,
  the dispatcher redirects there (after the session save, when the session has one) and
  deletes \<open>returnTo\<close> from the session; the same dispatch on the request this leaves
  redirects to the configured URL.
\<close>

theorem success_return_to:
  assumes "\<And>q. strategy q options = CallSuccess user info"
    and "truthy (successReturnToOrRedirect options)"
    and "\<not> truthy (successFlash options)" and "\<not> truthy (successMessage options)"
    and "\<not> truthy (assignProperty options)"
    and "\<And>q s0. req_session q = Some s0 \<Longrightarrow>
           \<not> truthy (fst (h_logIn h user options q))
           \<and> (\<exists>s1. req_session (snd (h_logIn h user options q)) = Some s1
                    \<and> returnTo s1 = returnTo s0 \<and> save_fn s1 = save_fn s0)"
    and "authInfo options = JBool False
         \<or> (\<forall>q. \<not> truthy (fst (h_transformAuthInfo h (js_or info (JObj [])) q)))"
    and "req_session rq = Some s" and "returnTo s = Some url" and "truthy url"
  shows "\<exists>rq1 rq2 s1 s2.
           authenticate h (Single (Instance strategy)) (OptionsObject options) False rq rs
             = Done \<lparr> req = rq1, res = rs, opts = options,
                      trace = (if save_fn s then [SessionSave] else []) @ [ResRedirect url] \<rparr>
         \<and> req_session rq1 = Some s1 \<and> returnTo s1 = None
         \<and> authenticate h (Single (Instance strategy)) (OptionsObject options) False rq1 rs
             = Done \<lparr> req = rq2, res = rs, opts = options,
                      trace = (if save_fn s then [SessionSave] else [])
                                @ [ResRedirect (successReturnToOrRedirect options)] \<rparr>
         \<and> req_session rq2 = Some s2 \<and> returnTo s2 = None"
proof -
  let ?c = "config_of h (Single (Instance strategy)) (OptionsObject options) False"
  have run: "\<exists>a. authenticate h (Single (Instance strategy)) (OptionsObject options) False q rs
               = Done (complete \<lparr> req = (snd (h_logIn h user options q))\<lparr>req_authInfo := a\<rparr>,
                                   res = rs, opts = options, trace = [] \<rparr>)"
    if q: "req_session q = Some s0" for q s0
  proof -
    let ?w = "start (OptionsObject options) q rs"
    have w: "opts ?w = options" "req ?w = q" by (simp_all add: start_def)
    have c: "\<not> has_callback ?c" "req_logIn ?c = h_logIn h" "p_transformAuthInfo ?c = h_transformAuthInfo h"
      by (simp_all add: config_of_def)
    have "\<exists>a. success ?c user info ?w
              = Done (complete (?w\<lparr>req := (snd (req_logIn ?c user (opts ?w) (req ?w)))\<lparr>req_authInfo := a\<rparr>\<rparr>))"
      using assms(3-5,7) assms(6) [OF q] by (intro success_logged_in) (auto simp: c w)
    then obtain a where "success ?c user info ?w
              = Done (complete (?w\<lparr>req := (snd (h_logIn h user options q))\<lparr>req_authInfo := a\<rparr>\<rparr>))"
      by (auto simp: c w)
    moreover have "authenticate h (Single (Instance strategy)) (OptionsObject options) False q rs
                     = success ?c user info ?w"
      by (rule authenticate_single_success) (simp add: assms(1))
    ultimately show ?thesis by (auto simp: start_def)
  qed
  from run [OF assms(8)] obtain a1 where 1:
    "authenticate h (Single (Instance strategy)) (OptionsObject options) False rq rs
       = Done (complete \<lparr> req = (snd (h_logIn h user options rq))\<lparr>req_authInfo := a1\<rparr>,
                           res = rs, opts = options, trace = [] \<rparr>)" by blast
  from assms(6) [OF assms(8)] obtain t1 where t1:
    "req_session (snd (h_logIn h user options rq)) = Some t1" "returnTo t1 = returnTo s"
    "save_fn t1 = save_fn s" by blast
  define r1 where "r1 = (snd (h_logIn h user options rq))\<lparr>req_authInfo := a1\<rparr>"
  define rq1 where "rq1 = r1\<lparr>req_session := Some (t1\<lparr>returnTo := None\<rparr>)\<rparr>"
  have s1: "req_session r1 = Some t1" using t1(1) by (simp add: r1_def)
  have c1: "complete \<lparr> req = r1, res = rs, opts = options, trace = [] \<rparr>
            = \<lparr> req = rq1, res = rs, opts = options,
                trace = (if save_fn s then [SessionSave] else []) @ [ResRedirect url] \<rparr>"
    using complete_return_to [of "\<lparr> req = r1, res = rs, opts = options, trace = [] \<rparr>" t1 url]
      assms(2,9,10) s1 t1(2,3) by (simp add: rq1_def)
  have q1: "req_session rq1 = Some (t1\<lparr>returnTo := None\<rparr>)" by (simp add: rq1_def)
  from run [OF q1] obtain a2 where 2:
    "authenticate h (Single (Instance strategy)) (OptionsObject options) False rq1 rs
       = Done (complete \<lparr> req = (snd (h_logIn h user options rq1))\<lparr>req_authInfo := a2\<rparr>,
                           res = rs, opts = options, trace = [] \<rparr>)" by blast
  from assms(6) [OF q1] obtain t2 where t2:
    "req_session (snd (h_logIn h user options rq1)) = Some t2" "returnTo t2 = None"
    "save_fn t2 = save_fn s" using t1(3) by auto
  define rq2 where "rq2 = (snd (h_logIn h user options rq1))\<lparr>req_authInfo := a2\<rparr>"
  have s2: "req_session rq2 = Some t2" using t2(1) by (simp add: rq2_def)
  have c2: "complete \<lparr> req = rq2, res = rs, opts = options, trace = [] \<rparr>
            = \<lparr> req = rq2, res = rs, opts = options,
                trace = (if save_fn s then [SessionSave] else [])
                          @ [ResRedirect (successReturnToOrRedirect options)] \<rparr>"
    using complete_fallback [of "\<lparr> req = rq2, res = rs, opts = options, trace = [] \<rparr>" t2]
      assms(2) s2 t2(2,3) by simp
  have "authenticate h (Single (Instance strategy)) (OptionsObject options) False rq rs
             = Done \<lparr> req = rq1, res = rs, opts = options,
                      trace = (if save_fn s then [SessionSave] else []) @ [ResRedirect url] \<rparr>"
    using 1 c1 by (simp add: r1_def)
  moreover have "req_session rq1 = Some (t1\<lparr>returnTo := None\<rparr>)"
    "returnTo (t1\<lparr>returnTo := None\<rparr>) = None" by (simp_all add: rq1_def)
  moreover have "authenticate h (Single (Instance strategy)) (OptionsObject options) False rq1 rs
             = Done \<lparr> req = rq2, res = rs, opts = options,
                      trace = (if save_fn s then [SessionSave] else [])
                                @ [ResRedirect (successReturnToOrRedirect options)] \<rparr>"
    using 2 c2 by (simp add: rq2_def)
  ultimately show ?thesis using s2 t2(2) by blast
qed

theorem success_return_to_witness:
  "req_session dash_request = Some dash_session
   \<and> returnTo dash_session = Some (JStr ''/dash'')
   \<and> successReturnToOrRedirect return_options = JStr ''/home''
   \<and> (\<exists>rq1 rq2 s1 s2.
         authenticate session_host (Single (Instance succeed_alice)) (OptionsObject return_options) False
             dash_request fresh_response
           = Done \<lparr> req = rq1, res = fresh_response, opts = return_options,
                    trace = (if save_fn dash_session then [SessionSave] else [])
                              @ [ResRedirect (JStr ''/dash'')] \<rparr>
       \<and> req_session rq1 = Some s1 \<and> returnTo s1 = None
       \<and> authenticate session_host (Single (Instance succeed_alice)) (OptionsObject return_options) False
             rq1 fresh_response
           = Done \<lparr> req = rq2, res = fresh_response, opts = return_options,
                    trace = (if save_fn dash_session then [SessionSave] else [])
                              @ [ResRedirect (successReturnToOrRedirect return_options)] \<rparr>
       \<and> req_session rq2 = Some s2 \<and> returnTo s2 = None)"
proof -
  have a: "\<And>q. succeed_alice q return_options = CallSuccess (JStr ''alice'') JUndefined"
    by (simp add: succeed_alice_def)
  have o: "truthy (successReturnToOrRedirect return_options)"
    "\<not> truthy (successFlash return_options)" "\<not> truthy (successMessage return_options)"
    "\<not> truthy (assignProperty return_options)"
    by (simp_all add: return_options_def no_options_def)
  have l: "\<And>q s0. req_session q = Some s0 \<Longrightarrow>
           \<not> truthy (fst (h_logIn session_host (JStr ''alice'') return_options q))
           \<and> (\<exists>s1. req_session (snd (h_logIn session_host (JStr ''alice'') return_options q)) = Some s1
                    \<and> returnTo s1 = returnTo s0 \<and> save_fn s1 = save_fn s0)"
    by (simp add: session_host_def)
  have t: "authInfo return_options = JBool False
         \<or> (\<forall>q. \<not> truthy (fst (h_transformAuthInfo session_host (js_or JUndefined (JObj [])) q)))"
    by (simp add: session_host_def)
  have s: "req_session dash_request = Some dash_session"
    "returnTo dash_session = Some (JStr ''/dash'')" "truthy (JStr ''/dash'')"
    by (simp_all add: dash_request_def dash_session_def)
  have h: "successReturnToOrRedirect return_options = JStr ''/home''"
    by (simp add: return_options_def)
  from success_return_to [where strategy = succeed_alice and options = return_options
      and user = "JStr ''alice''" and info = JUndefined and h = session_host and rq = dash_request
      and s = dash_session and url = "JStr ''/dash''" and rs = fresh_response,
      OF a o l t s] s(1,2) h
  show ?thesis by (intro conjI)
qed

text \<open>
  C7 as stated fails: with \<open>successRedirect\<close> configured (and not
  \<open>successReturnToOrRedirect\<close>) the dispatcher redirects to the configured URL, and the
  session still holds \<open>returnTo = "/dash"\<close> afterwards.
\<close>

theorem success_redirect_counterexample:
  "trace (world_of (authenticate no_host (Single (Instance succeed_alice))
            (OptionsObject redirect_options) False dash_request fresh_response))
     = [ResRedirect (JStr ''/home'')]
   \<and> req_session (req (world_of (authenticate no_host (Single (Instance succeed_alice))
            (OptionsObject redirect_options) False dash_request fresh_response)))
     = Some \<lparr> save_fn = False, returnTo = Some (JStr ''/dash''), messages = None \<rparr>"
proof -
  have o: "successFlash redirect_options = JUndefined" "successMessage redirect_options = JUndefined"
    "assignProperty redirect_options = JUndefined" "authInfo redirect_options = JUndefined"
    "successReturnToOrRedirect redirect_options = JUndefined"
    "successRedirect redirect_options = JStr ''/home''"
    by (simp_all add: redirect_options_def no_options_def)
  have "authenticate no_host (Single (Instance succeed_alice))
            (OptionsObject redirect_options) False dash_request fresh_response
        = Done \<lparr> req = dash_request\<lparr>req_authInfo := JObj []\<rparr>, res = fresh_response,
                 opts = redirect_options, trace = [ResRedirect (JStr ''/home'')] \<rparr>"
    by (simp add: authenticate_def resolve_def succeed_alice_def success_def flash_success_def
        message_success_def proceed_def after_logIn_def complete_def redirect_def config_of_def
        start_def no_host_def o js_or_def emit_def dash_request_def dash_session_def
        plain_request_def)
  then show ?thesis
    by (simp add: dash_request_def dash_session_def plain_request_def)
qed

subsection \<open>What a dispatch does to the options\<close>

lemma defaulted_typed: "\<not> untyped_object v \<Longrightarrow> defaulted d v = v"
  by (rule defaulted_fixed) (auto simp: untyped_object_def)

lemma opts_redirect: "opts (redirect u w) = opts w"
  by (simp add: redirect_def emit_def split: option.splits)

lemma opts_respond: "opts (respond failures w) = opts w"
  by (simp add: respond_def opts_redirect emit_def split_beta Let_def)

lemma opts_message_failure: "opts (world_of (message_failure src w)) = opts w"
  using message_failure_world [of src w] by (auto split: option.splits)

lemma opts_bind:
  assumes "\<And>u. opts (world_of (f u)) = opts u"
  shows "opts (world_of (bind m f)) = opts (world_of m)"
  by (cases m) (simp_all add: assms)

lemma allFailed_opts:
  "opts (world_of (allFailed c failures w)) = opts w
   \<or> opts (world_of (allFailed c failures w))
       = (opts w)\<lparr>failureFlash := defaulted ''error'' (failureFlash (opts w))\<rparr>"
proof (cases "has_callback c")
  case True
  then have "opts (world_of (allFailed c failures w)) = opts w"
    by (simp add: allFailed_def emit_def split: list.splits)
  then show ?thesis by simp
next
  case False
  let ?src = "js_or (case failures of [] \<Rightarrow> JUndefined | f # fs \<Rightarrow> challenge f) (JObj [])"
  have "opts (world_of (allFailed c failures w)) = opts (world_of (flash_failure ?src w))"
    using False
    by (simp add: allFailed_def Let_def opts_bind opts_message_failure opts_respond)
  moreover obtain ff evs where
    "world_of (flash_failure ?src w) = w\<lparr>opts := (opts w)\<lparr>failureFlash := ff\<rparr>, trace := trace w @ evs\<rparr>"
    "ff = failureFlash (opts w) \<or> ff = defaulted ''error'' (failureFlash (opts w))"
    using flash_failure_world [of ?src w] by blast
  ultimately show ?thesis by auto
qed

lemma success_opts:
  "opts (world_of (success c user info w)) = opts w
   \<or> opts (world_of (success c user info w))
       = (opts w)\<lparr>successFlash := defaulted ''success'' (successFlash (opts w))\<rparr>"
proof (cases "has_callback c")
  case True
  then have "opts (world_of (success c user info w)) = opts w"
    by (simp add: success_def emit_def)
  then show ?thesis by simp
next
  case False
  from success_world [OF False, of user info w] show ?thesis by auto
qed

lemma attempt_opts:
  "opts (world_of (attempt c layers failures w)) = opts w
   \<or> opts (world_of (attempt c layers failures w))
       = (opts w)\<lparr>failureFlash := defaulted ''error'' (failureFlash (opts w))\<rparr>
   \<or> opts (world_of (attempt c layers failures w))
       = (opts w)\<lparr>successFlash := defaulted ''success'' (successFlash (opts w))\<rparr>"
proof (induction layers arbitrary: failures)
  case Nil
  show ?case using allFailed_opts [of c failures w] by auto
next
  case (Cons layer layers)
  show ?case
  proof (cases "resolve (p_strategy c) layer")
    case NoLayer
    then show ?thesis using allFailed_opts [of c failures w] by auto
  next
    case (NoPrototype s)
    then show ?thesis by (simp add: emit_def)
  next
    case (Strategy strategy)
    show ?thesis
    proof (cases "strategy (req w) (opts w)")
      case (CallSuccess user info)
      then show ?thesis using Strategy success_opts [of c user info w] by auto
    next
      case (CallFail challenge0 status0)
      then show ?thesis using Strategy Cons.IH [of "fail challenge0 status0 failures"] by simp
    next
      case (CallRedirect url status0)
      then show ?thesis using Strategy by (simp add: strategy_redirect_def emit_def)
    next
      case CallPass
      then show ?thesis using Strategy by (simp add: emit_def)
    next
      case (CallError err)
      then show ?thesis using Strategy by (simp add: strategy_error_def emit_def)
    qed
  qed
qed

lemma attempt_opts_callback:
  "has_callback c \<Longrightarrow> opts (world_of (attempt c layers failures w)) = opts w"
proof (induction layers arbitrary: failures)
  case Nil
  then show ?case by (simp add: allFailed_def emit_def split: list.splits)
next
  case (Cons layer layers)
  then show ?case
    by (auto simp: allFailed_def success_def strategy_redirect_def strategy_error_def emit_def
        split: resolution.splits action.splits list.splits)
qed

text \<open>
  C9 (as amended). After any dispatch the options hold the values they held when the
  handler was called, with one exception: when the all-failed procedure (the success
  procedure) runs without a callback and \<open>failureFlash\<close> (\<open>successFlash\<close>) is an
  object without a truthy \<open>type\<close>, that object has its \<open>type\<close> set to
  \<open>"error"\<close> (\<open>"success"\<close>). Boolean and string flash values, flash objects that carry
  a type, every other option, and every dispatch with a callback leave the options
  unchanged.
\<close>

theorem options_after_dispatch:
  "(opts (world_of (authenticate h name oa cb rq rs)) = options_of oa
    \<or> opts (world_of (authenticate h name oa cb rq rs))
        = (options_of oa)\<lparr>failureFlash := defaulted ''error'' (failureFlash (options_of oa))\<rparr>
    \<or> opts (world_of (authenticate h name oa cb rq rs))
        = (options_of oa)\<lparr>successFlash := defaulted ''success'' (successFlash (options_of oa))\<rparr>)
   \<and> (\<not> untyped_object (failureFlash (options_of oa))
        \<and> \<not> untyped_object (successFlash (options_of oa))
      \<longrightarrow> opts (world_of (authenticate h name oa cb rq rs)) = options_of oa)
   \<and> (cb \<longrightarrow> opts (world_of (authenticate h name oa cb rq rs)) = options_of oa)"
proof -
  let ?c = "config_of h name oa cb"
  let ?w = "start oa rq rs"
  have o: "opts ?w = options_of oa" by (simp add: start_def)
  note a = attempt_opts [of ?c "chain_of name" "[]" ?w, unfolded o, folded authenticate_def]
  have b: "opts (world_of (authenticate h name oa cb rq rs)) = options_of oa"
    if "\<not> untyped_object (failureFlash (options_of oa))"
       "\<not> untyped_object (successFlash (options_of oa))"
    using a that by (auto simp: defaulted_typed)
  have c: "opts (world_of (authenticate h name oa cb rq rs)) = options_of oa" if cb
    using attempt_opts_callback [of ?c "chain_of name" "[]" ?w] that
    by (simp add: authenticate_def o config_of_def)
  from a b c show ?thesis by blast
qed

theorem options_after_dispatch_witness:
  "\<not> untyped_object (failureFlash string_flash_options)
   \<and> \<not> untyped_object (successFlash string_flash_options)
   \<and> opts (world_of (authenticate no_host (Many []) (OptionsObject string_flash_options) False
             flash_request fresh_response)) = string_flash_options"
proof -
  have u: "\<not> untyped_object (failureFlash string_flash_options)"
    "\<not> untyped_object (successFlash string_flash_options)"
    by (simp_all add: string_flash_options_def no_options_def untyped_object_def)
  have "\<not> untyped_object (failureFlash (options_of (OptionsObject string_flash_options)))
        \<and> \<not> untyped_object (successFlash (options_of (OptionsObject string_flash_options)))
      \<longrightarrow> opts (world_of (authenticate no_host (Many []) (OptionsObject string_flash_options) False
             flash_request fresh_response)) = options_of (OptionsObject string_flash_options)"
    by (rule options_after_dispatch [THEN conjunct2, THEN conjunct1])
  with u show ?thesis by simp
qed

text \<open>
  C9 as stated fails: with \<open>failureFlash = {message: "Denied"}\<close> the all-failed procedure
  writes \<open>type = "error"\<close> into that object, and the options hold it afterwards.
\<close>

theorem failureFlash_object_counterexample:
  "failureFlash flash_options = JObj [(''message'', JStr ''Denied'')]
   \<and> failureFlash (opts (world_of (authenticate no_host (Many []) (OptionsObject flash_options) False
         flash_request fresh_response)))
     = JObj [(''message'', JStr ''Denied''), (''type'', JStr ''error'')]"
proof -
  have o: "failureFlash flash_options = JObj [(''message'', JStr ''Denied'')]"
    "failureMessage flash_options = JUndefined" "failureRedirect flash_options = JUndefined"
    "failWithError flash_options = JUndefined"
    by (simp_all add: flash_options_def no_options_def)
  have b: "flash_block ''error'' (JObj [(''message'', JStr ''Denied'')]) (JObj [])
           = Inr (JObj [(''message'', JStr ''Denied''), (''type'', JStr ''error'')],
                  [Flash (JStr ''error'') (JStr ''Denied'')])"
    by (simp add: flash_block_def js_or_def Let_def)
  have "opts (world_of (authenticate no_host (Many []) (OptionsObject flash_options) False
         flash_request fresh_response))
        = flash_options\<lparr>failureFlash := JObj [(''message'', JStr ''Denied''), (''type'', JStr ''error'')]\<rparr>"
    by (simp add: authenticate_def allFailed_def config_of_def start_def js_or_def Let_def
        flash_failure_def message_failure_def o b flash_request_def opts_respond)
  with o(1) show ?thesis by simp
qed

end
